theory Spec2Isabelle
  imports Complex_Main
begin

section \<open>Numbers, time and errors\<close>

text \<open>
  The chaincode computes with Go's \<^verbatim>\<open>float64\<close>. The model keeps the special values of
  IEEE 754 that the code can produce (a division by zero gives an infinity or NaN in Go, it
  does not panic; every comparison with NaN is false). In the translations of this section
  and of the two sections on the contracts a finite value is an exact real number: rounding,
  overflow to infinity and the sign of zero are not modelled, and a statement about them is
  a statement about exact arithmetic, which is what the specification's "within tolerance"
  abstracts from. The section after them repeats the translations with the rounding of every
  operation as a parameter, for the statements that depend on how the machine rounds.
\<close>

datatype float64 = Fin real | PInf | NInf | NaN

fun fneg :: "float64 \<Rightarrow> float64" where
  "fneg (Fin x) = Fin (- x)"
| "fneg PInf = NInf"
| "fneg NInf = PInf"
| "fneg NaN = NaN"

fun fadd :: "float64 \<Rightarrow> float64 \<Rightarrow> float64" where
  "fadd (Fin x) (Fin y) = Fin (x + y)"
| "fadd (Fin x) PInf = PInf"
| "fadd (Fin x) NInf = NInf"
| "fadd PInf (Fin y) = PInf"
| "fadd PInf PInf = PInf"
| "fadd PInf NInf = NaN"
| "fadd NInf (Fin y) = NInf"
| "fadd NInf NInf = NInf"
| "fadd NInf PInf = NaN"
| "fadd NaN b = NaN"
| "fadd a NaN = NaN"

definition fsub :: "float64 \<Rightarrow> float64 \<Rightarrow> float64" where
  "fsub a b = fadd a (fneg b)"

fun fmul :: "float64 \<Rightarrow> float64 \<Rightarrow> float64" where
  "fmul (Fin x) (Fin y) = Fin (x * y)"
| "fmul (Fin x) PInf = (if x = 0 then NaN else if 0 < x then PInf else NInf)"
| "fmul (Fin x) NInf = (if x = 0 then NaN else if 0 < x then NInf else PInf)"
| "fmul PInf (Fin y) = (if y = 0 then NaN else if 0 < y then PInf else NInf)"
| "fmul NInf (Fin y) = (if y = 0 then NaN else if 0 < y then NInf else PInf)"
| "fmul PInf PInf = PInf"
| "fmul PInf NInf = NInf"
| "fmul NInf PInf = NInf"
| "fmul NInf NInf = PInf"
| "fmul NaN b = NaN"
| "fmul a NaN = NaN"

fun fdiv :: "float64 \<Rightarrow> float64 \<Rightarrow> float64" where
  "fdiv (Fin x) (Fin y) =
     (if y = 0 then (if x = 0 then NaN else if 0 < x then PInf else NInf) else Fin (x / y))"
| "fdiv (Fin x) PInf = Fin 0"
| "fdiv (Fin x) NInf = Fin 0"
| "fdiv PInf (Fin y) = (if 0 \<le> y then PInf else NInf)"
| "fdiv NInf (Fin y) = (if 0 \<le> y then NInf else PInf)"
| "fdiv PInf PInf = NaN"
| "fdiv PInf NInf = NaN"
| "fdiv NInf PInf = NaN"
| "fdiv NInf NInf = NaN"
| "fdiv NaN b = NaN"
| "fdiv a NaN = NaN"

text \<open>Go's \<^verbatim>\<open><\<close>, \<^verbatim>\<open>==\<close>, \<^verbatim>\<open>>\<close> and \<^verbatim>\<open>>=\<close> on \<^verbatim>\<open>float64\<close>.\<close>

fun flt :: "float64 \<Rightarrow> float64 \<Rightarrow> bool" where
  "flt (Fin x) (Fin y) = (x < y)"
| "flt (Fin x) PInf = True"
| "flt (Fin x) NInf = False"
| "flt PInf b = False"
| "flt NInf (Fin y) = True"
| "flt NInf PInf = True"
| "flt NInf NInf = False"
| "flt NaN b = False"
| "flt a NaN = False"

definition feq :: "float64 \<Rightarrow> float64 \<Rightarrow> bool" where
  "feq a b = (a \<noteq> NaN \<and> b \<noteq> NaN \<and> a = b)"

definition fgt :: "float64 \<Rightarrow> float64 \<Rightarrow> bool" where
  "fgt a b = flt b a"

definition fge :: "float64 \<Rightarrow> float64 \<Rightarrow> bool" where
  "fge a b = (flt b a \<or> feq a b)"

text \<open>The chaincode's own \<^verbatim>\<open>abs\<close> (basket contract) and the library's \<^verbatim>\<open>math.Abs\<close>.\<close>

definition abs_f :: "float64 \<Rightarrow> float64" where
  "abs_f x = (if flt x (Fin 0) then fneg x else x)"

fun math_Abs :: "float64 \<Rightarrow> float64" where
  "math_Abs (Fin x) = Fin \<bar>x\<bar>"
| "math_Abs PInf = PInf"
| "math_Abs NInf = PInf"
| "math_Abs NaN = NaN"

text \<open>
  Time. A transaction sees one clock reading \<open>now\<close> (nanoseconds since the epoch, the
  value of \<^verbatim>\<open>time.Now().UnixNano()\<close>); \<^verbatim>\<open>time.Parse(time.RFC3339, s)\<close> and
  \<^verbatim>\<open>t.Format(time.RFC3339)\<close> belong to Go's library and are parameters of the model.
  Instants and durations are unbounded integers: the saturation of \<^verbatim>\<open>time.Duration\<close> is
  not modelled.
\<close>

record env =
  now :: int
  parseRFC3339 :: "string \<Rightarrow> int option"
  formatRFC3339 :: "int \<Rightarrow> string"

definition hour_ns :: int where
  "hour_ns = 3600000000000"

text \<open>\<^verbatim>\<open>time.Since(t).Hours() / 24\<close>\<close>

definition daysSince :: "env \<Rightarrow> int \<Rightarrow> float64" where
  "daysSince e t = Fin (real_of_int (now e - t) / real_of_int hour_ns / 24)"

text \<open>\<^verbatim>\<open>fmt.Sprintf("%d", n)\<close>\<close>

fun dec_nat :: "nat \<Rightarrow> string" where
  "dec_nat n = (if n < 10 then [''0123456789'' ! n]
                else dec_nat (n div 10) @ [''0123456789'' ! (n mod 10)])"

declare dec_nat.simps [simp del]

definition dec_int :: "int \<Rightarrow> string" where
  "dec_int i = (if i < 0 then CHR ''-'' # dec_nat (nat (- i)) else dec_nat (nat i))"

text \<open>The errors the two contracts return (\<^verbatim>\<open>fmt.Errorf\<close> with the message in the comment).\<close>

datatype error =
    InsufficientBalance       \<comment> \<open>insufficient balance: required ..., available ...\<close>
  | TokenNotFound             \<comment> \<open>token ... does not exist\<close>
  | Unauthorized              \<comment> \<open>unauthorized: user does not own this token\<close>
  | InsufficientTokenBalance  \<comment> \<open>insufficient token balance: requested ..., available ...\<close>
  | PolicyNotInitialized      \<comment> \<open>rebalance policy not initialized\<close>
  | RequestNotFound           \<comment> \<open>request ... not found\<close>
  | UnmarshalRequestFailed    \<comment> \<open>failed to unmarshal request: ...\<close>
  | NotPending                \<comment> \<open>request is not in PENDING status\<close>
  | ApprovalNotRequired       \<comment> \<open>request does not require approval\<close>
  | NotReady                  \<comment> \<open>request is not ready for execution\<close>
  | MarshalFailed             \<comment> \<open>failed to marshal ...: json: unsupported value\<close>

text \<open>
  \<^verbatim>\<open>json.Marshal\<close> returns an error for a record with a \<^verbatim>\<open>float64\<close> field that is NaN or
  infinite; it encodes every finite value.
\<close>

fun is_finite :: "float64 \<Rightarrow> bool" where
  "is_finite (Fin x) = True"
| "is_finite PInf = False"
| "is_finite NInf = False"
| "is_finite NaN = False"

text \<open>
  An invocation runs as one Fabric transaction: when it returns an error nothing of what it
  wrote is committed. A model function returns the world state after the invocation together
  with the error, if any; with an error that state is the one before the invocation. An error
  that the code wraps in a longer message is returned as the error it wraps.
\<close>

definition on_error_discard :: "'s \<Rightarrow> 's \<times> error option \<Rightarrow> 's \<times> error option" where
  "on_error_discard st r = (case r of (st', Some err) \<Rightarrow> (st, Some err) | (st', None) \<Rightarrow> (st', None))"


section \<open>The basket contract (mbt\_basket\_chaincode.go)\<close>

record MetalComposition =
  Gold :: float64
  Silver :: float64
  Platinum :: float64

text \<open>
  The token's \<^verbatim>\<open>LastRebalance\<close> field is called \<open>TokenLastRebalance\<close> here, since the
  holdings record has a field of the same name.
\<close>

record MBTToken =
  TokenID :: string
  Owner :: string
  TotalValue :: float64
  BGTAmount :: float64
  BSTAmount :: float64
  BPTAmount :: float64
  CreationTime :: string
  TokenLastRebalance :: string
  Composition :: MetalComposition

record BasketHolding =
  TotalMBTSupply :: float64
  TotalBGTValue :: float64
  TotalBSTValue :: float64
  TotalBPTValue :: float64
  RebalanceNeeded :: bool
  LastRebalance :: string

text \<open>
  The world state of the basket contract: the token records by key and the record under the
  key \<^verbatim>\<open>BASKET_HOLDINGS\<close>. \<^verbatim>\<open>GetState\<close>, \<^verbatim>\<open>PutState\<close> and \<^verbatim>\<open>DelState\<close> do not fail
  in the model, and a stored record decodes to itself.
\<close>

record basket_state =
  tokens :: "string \<rightharpoonup> MBTToken"
  basket_holdings :: "BasketHolding option"

text \<open>Whether \<^verbatim>\<open>json.Marshal\<close> encodes a token and a holdings record.\<close>

definition marshal_token_ok :: "MBTToken \<Rightarrow> bool" where
  "marshal_token_ok t =
     (is_finite (TotalValue t) \<and> is_finite (BGTAmount t) \<and> is_finite (BSTAmount t) \<and>
      is_finite (BPTAmount t) \<and> is_finite (Gold (Composition t)) \<and>
      is_finite (Silver (Composition t)) \<and> is_finite (Platinum (Composition t)))"

definition marshal_holdings_ok :: "BasketHolding \<Rightarrow> bool" where
  "marshal_holdings_ok h =
     (is_finite (TotalMBTSupply h) \<and> is_finite (TotalBGTValue h) \<and>
      is_finite (TotalBSTValue h) \<and> is_finite (TotalBPTValue h))"

definition GOLD_ALLOCATION :: float64 where
  "GOLD_ALLOCATION = Fin 0.50"

definition SILVER_ALLOCATION :: float64 where
  "SILVER_ALLOCATION = Fin 0.30"

definition PLATINUM_ALLOCATION :: float64 where
  "PLATINUM_ALLOCATION = Fin 0.20"

definition MAX_DEVIATION_PERCENT :: float64 where
  "MAX_DEVIATION_PERCENT = Fin 0.05"

definition REBALANCE_INTERVAL_DAYS :: float64 where
  "REBALANCE_INTERVAL_DAYS = Fin 30"

text \<open>The four simulations of the source: a fixed balance, and three calls that return \<^verbatim>\<open>nil\<close>.\<close>

definition GetUserBalance :: "string \<Rightarrow> float64 \<Rightarrow> float64" where
  "GetUserBalance userID amount = Fin 1000000.0"

definition DeductUserBalance :: "string \<Rightarrow> float64 \<Rightarrow> error option" where
  "DeductUserBalance userID amount = None"

definition AllocateToMetalTokens :: "string \<Rightarrow> float64 \<Rightarrow> float64 \<Rightarrow> float64 \<Rightarrow> error option" where
  "AllocateToMetalTokens userID goldAmount silverAmount platinumAmount = None"

definition ProcessMetalRedemption :: "string \<Rightarrow> float64 \<Rightarrow> float64 \<Rightarrow> float64 \<Rightarrow> error option" where
  "ProcessMetalRedemption userID bgtAmount bstAmount bptAmount = None"

definition GetBasketHoldings :: "env \<Rightarrow> basket_state \<Rightarrow> BasketHolding" where
  "GetBasketHoldings e st =
     (case basket_holdings st of
        None \<Rightarrow> \<lparr>TotalMBTSupply = Fin 0, TotalBGTValue = Fin 0, TotalBSTValue = Fin 0,
                 TotalBPTValue = Fin 0, RebalanceNeeded = False,
                 LastRebalance = formatRFC3339 e (now e)\<rparr>
      | Some h \<Rightarrow> h)"

definition CheckRebalanceNeeded :: "env \<Rightarrow> BasketHolding \<Rightarrow> bool" where
  "CheckRebalanceNeeded e holdings =
     (if feq (TotalMBTSupply holdings) (Fin 0) then False
      else
        let totalValue = fadd (fadd (TotalBGTValue holdings) (TotalBSTValue holdings))
                              (TotalBPTValue holdings)
        in if feq totalValue (Fin 0) then False
           else
             let currentGoldPct = fdiv (TotalBGTValue holdings) totalValue;
                 currentSilverPct = fdiv (TotalBSTValue holdings) totalValue;
                 currentPlatinumPct = fdiv (TotalBPTValue holdings) totalValue;
                 goldDeviation = abs_f (fsub currentGoldPct GOLD_ALLOCATION);
                 silverDeviation = abs_f (fsub currentSilverPct SILVER_ALLOCATION);
                 platinumDeviation = abs_f (fsub currentPlatinumPct PLATINUM_ALLOCATION)
             in if fgt goldDeviation MAX_DEVIATION_PERCENT \<or>
                   fgt silverDeviation MAX_DEVIATION_PERCENT \<or>
                   fgt platinumDeviation MAX_DEVIATION_PERCENT
                then True
                else (case parseRFC3339 e (LastRebalance holdings) of
                        None \<Rightarrow> True
                      | Some lastRebalance \<Rightarrow>
                          if fge (daysSince e lastRebalance) REBALANCE_INTERVAL_DAYS then True
                          else False))"

definition UpdateBasketHoldings ::
  "env \<Rightarrow> basket_state \<Rightarrow> float64 \<Rightarrow> float64 \<Rightarrow> float64 \<Rightarrow> float64 \<Rightarrow> bool
   \<Rightarrow> basket_state \<times> error option" where
  "UpdateBasketHoldings e st mbtAmount bgtValue bstValue bptValue isMint =
     (let holdings = GetBasketHoldings e st;
          holdings1 =
            (if isMint then
               holdings\<lparr>TotalMBTSupply := fadd (TotalMBTSupply holdings) mbtAmount,
                        TotalBGTValue := fadd (TotalBGTValue holdings) bgtValue,
                        TotalBSTValue := fadd (TotalBSTValue holdings) bstValue,
                        TotalBPTValue := fadd (TotalBPTValue holdings) bptValue\<rparr>
             else
               holdings\<lparr>TotalMBTSupply := fsub (TotalMBTSupply holdings) mbtAmount,
                        TotalBGTValue := fsub (TotalBGTValue holdings) bgtValue,
                        TotalBSTValue := fsub (TotalBSTValue holdings) bstValue,
                        TotalBPTValue := fsub (TotalBPTValue holdings) bptValue\<rparr>);
          holdings2 = holdings1\<lparr>RebalanceNeeded := CheckRebalanceNeeded e holdings1\<rparr>
      in if \<not> marshal_holdings_ok holdings2 then (st, Some MarshalFailed)
         else (st\<lparr>basket_holdings := Some holdings2\<rparr>, None))"

definition mintTokenID :: "env \<Rightarrow> string" where
  "mintTokenID e = ''MBT-'' @ dec_int (now e)"

definition MintMBT ::
  "env \<Rightarrow> basket_state \<Rightarrow> string \<Rightarrow> float64 \<Rightarrow> string \<Rightarrow> basket_state \<times> error option" where
  "MintMBT e st owner totalAmount userID =
     (let balance = GetUserBalance userID totalAmount
      in if flt balance totalAmount then (st, Some InsufficientBalance)
         else
           let goldAmount = fmul totalAmount GOLD_ALLOCATION;
               silverAmount = fmul totalAmount SILVER_ALLOCATION;
               platinumAmount = fmul totalAmount PLATINUM_ALLOCATION;
               tokenID = mintTokenID e;
               mbtToken = \<lparr>TokenID = tokenID, Owner = owner, TotalValue = totalAmount,
                           BGTAmount = goldAmount, BSTAmount = silverAmount,
                           BPTAmount = platinumAmount,
                           CreationTime = formatRFC3339 e (now e),
                           TokenLastRebalance = formatRFC3339 e (now e),
                           Composition = \<lparr>Gold = Fin 50, Silver = Fin 30, Platinum = Fin 20\<rparr>\<rparr>
           in if \<not> marshal_token_ok mbtToken then (st, Some MarshalFailed)
              else
                let st1 = st\<lparr>tokens := (tokens st)(tokenID \<mapsto> mbtToken)\<rparr>
                in case DeductUserBalance userID totalAmount of
                     Some err \<Rightarrow> (st, Some err)
                   | None \<Rightarrow>
                       (case AllocateToMetalTokens userID goldAmount silverAmount platinumAmount of
                          Some err \<Rightarrow> (st, Some err)
                        | None \<Rightarrow>
                            on_error_discard st
                              (UpdateBasketHoldings e st1 totalAmount goldAmount silverAmount
                                 platinumAmount True)))"

definition RedeemMBT ::
  "env \<Rightarrow> basket_state \<Rightarrow> string \<Rightarrow> float64 \<Rightarrow> string \<Rightarrow> basket_state \<times> error option" where
  "RedeemMBT e st tokenID amount userID =
     (case tokens st tokenID of
        None \<Rightarrow> (st, Some TokenNotFound)
      | Some token \<Rightarrow>
          if Owner token \<noteq> userID then (st, Some Unauthorized)
          else if fgt amount (TotalValue token) then (st, Some InsufficientTokenBalance)
          else
            let redemptionRatio = fdiv amount (TotalValue token);
                redemptionBGT = fmul (BGTAmount token) redemptionRatio;
                redemptionBST = fmul (BSTAmount token) redemptionRatio;
                redemptionBPT = fmul (BPTAmount token) redemptionRatio
            in case ProcessMetalRedemption userID redemptionBGT redemptionBST redemptionBPT of
                 Some err \<Rightarrow> (st, Some err)
               | None \<Rightarrow>
                   if feq amount (TotalValue token)
                   then
                     on_error_discard st
                       (UpdateBasketHoldings e (st\<lparr>tokens := (tokens st)(tokenID := None)\<rparr>)
                          amount redemptionBGT redemptionBST redemptionBPT False)
                   else
                     let token1 =
                           token\<lparr>TotalValue := fsub (TotalValue token) amount,
                                 BGTAmount := fsub (BGTAmount token) redemptionBGT,
                                 BSTAmount := fsub (BSTAmount token) redemptionBST,
                                 BPTAmount := fsub (BPTAmount token) redemptionBPT,
                                 TokenLastRebalance := formatRFC3339 e (now e)\<rparr>
                     in if \<not> marshal_token_ok token1 then (st, Some MarshalFailed)
                        else
                          on_error_discard st
                            (UpdateBasketHoldings e
                               (st\<lparr>tokens := (tokens st)(tokenID \<mapsto> token1)\<rparr>)
                               amount redemptionBGT redemptionBST redemptionBPT False))"

definition RebalanceBasket :: "env \<Rightarrow> basket_state \<Rightarrow> basket_state \<times> error option" where
  "RebalanceBasket e st =
     (let holdings = GetBasketHoldings e st
      in if \<not> RebalanceNeeded holdings then (st, None)
         else
           let totalValue = fadd (fadd (TotalBGTValue holdings) (TotalBSTValue holdings))
                                 (TotalBPTValue holdings)
           in if feq totalValue (Fin 0) then (st, None)
              else
                let targetBGT = fmul totalValue GOLD_ALLOCATION;
                    targetBST = fmul totalValue SILVER_ALLOCATION;
                    targetBPT = fmul totalValue PLATINUM_ALLOCATION;
                    holdings1 = holdings\<lparr>TotalBGTValue := targetBGT,
                                         TotalBSTValue := targetBST,
                                         TotalBPTValue := targetBPT,
                                         RebalanceNeeded := False,
                                         LastRebalance := formatRFC3339 e (now e)\<rparr>
                in if \<not> marshal_holdings_ok holdings1 then (st, Some MarshalFailed)
                   else (st\<lparr>basket_holdings := Some holdings1\<rparr>, None))"

text \<open>A Go map read \<^verbatim>\<open>m[k]\<close> gives the zero value for a missing key.\<close>

definition lookup0 :: "(string \<times> float64) list \<Rightarrow> string \<Rightarrow> float64" where
  "lookup0 m k = (case map_of m k of None \<Rightarrow> Fin 0 | Some v \<Rightarrow> v)"

definition GetMBTPrices :: "(string \<times> float64) list" where
  "GetMBTPrices = [(''BGT'', Fin 5800.0), (''BST'', Fin 75.0), (''BPT'', Fin 3200.0)]"

text \<open>
  \<^verbatim>\<open>CalculateMBTNAV\<close> with the price table as an argument; the contract calls it with the
  table of \<^verbatim>\<open>GetMBTPrices\<close>.
\<close>

definition CalculateMBTNAV_with ::
  "(string \<times> float64) list \<Rightarrow> env \<Rightarrow> basket_state \<Rightarrow> float64 \<times> error option" where
  "CalculateMBTNAV_with prices e st =
     (let holdings = GetBasketHoldings e st;
          totalValue = fadd (fadd (fmul (TotalBGTValue holdings) (lookup0 prices ''BGT''))
                                  (fmul (TotalBSTValue holdings) (lookup0 prices ''BST'')))
                            (fmul (TotalBPTValue holdings) (lookup0 prices ''BPT''))
      in if feq (TotalMBTSupply holdings) (Fin 0) then (Fin 0, None)
         else (fdiv totalValue (TotalMBTSupply holdings), None))"

definition CalculateMBTNAV :: "env \<Rightarrow> basket_state \<Rightarrow> float64 \<times> error option" where
  "CalculateMBTNAV e st = CalculateMBTNAV_with GetMBTPrices e st"

section \<open>The rebalancing contract (mbt\_rebalancing\_chaincode.go)\<close>

text \<open>
  A Go map with string keys is an association list; the three-key maps of the source are
  listed in the order of their literals (gold, silver, platinum), which is also the order in
  which the model's loops visit them (Go leaves the order of \<^verbatim>\<open>range\<close> over a map open).
  The text of a trigger reason is kept as the arguments of its \<^verbatim>\<open>Sprintf\<close>.
\<close>

datatype trigger_reason =
    NoReason
  | DeviationIn string float64     \<comment> \<open>Deviation in ... allocation: ...\<close>
  | ScheduledAfter float64         \<comment> \<open>Scheduled rebalancing after ... days\<close>

record RebalanceRequest =
  RequestID :: string
  BasketID :: string
  RequestType :: string
  TriggerReason :: trigger_reason
  CurrentAlloc :: "(string \<times> float64) list"
  TargetAlloc :: "(string \<times> float64) list"
  Deviations :: "(string \<times> float64) list"
  Status :: string
  CreatedAt :: string
  ExecutedAt :: string
  ApprovalRequired :: bool

text \<open>The operation's \<^verbatim>\<open>RequestID\<close> field is called \<open>OpRequestID\<close> here.\<close>

record RebalanceOperation =
  OperationID :: string
  OpRequestID :: string
  MetalType :: string
  OperationType :: string
  Amount :: float64
  CurrentPrice :: float64
  EstimatedCost :: float64
  Timestamp :: string

record RebalancePolicy =
  PolicyID :: string
  Name :: string
  GoldAllocation :: float64
  SilverAllocation :: float64
  PlatinumAllocation :: float64
  MaxDeviationPercent :: float64
  RebalanceIntervalDays :: int
  MinTradeAmount :: float64
  ApprovalThreshold :: float64

text \<open>
  The world state of the rebalancing contract: the record under \<^verbatim>\<open>REBALANCE_POLICY\<close>, the
  requests by key, the operations in the order in which they were stored (the clock readings
  that make their keys are taken to be distinct), and the record this contract writes under
  \<^verbatim>\<open>BASKET_HOLDINGS\<close>.
\<close>

record rebalance_state =
  policy :: "RebalancePolicy option"
  requests :: "string \<rightharpoonup> RebalanceRequest"
  operations :: "RebalanceOperation list"
  written_holdings :: "BasketHolding option"

text \<open>Whether \<^verbatim>\<open>json.Marshal\<close> encodes a request and an operation.\<close>

definition marshal_request_ok :: "RebalanceRequest \<Rightarrow> bool" where
  "marshal_request_ok r =
     (list_all (\<lambda>kv. is_finite (snd kv)) (CurrentAlloc r) \<and>
      list_all (\<lambda>kv. is_finite (snd kv)) (TargetAlloc r) \<and>
      list_all (\<lambda>kv. is_finite (snd kv)) (Deviations r))"

definition marshal_operation_ok :: "RebalanceOperation \<Rightarrow> bool" where
  "marshal_operation_ok operation =
     (is_finite (Amount operation) \<and> is_finite (CurrentPrice operation) \<and>
      is_finite (EstimatedCost operation))"

text \<open>The policy record of \<^verbatim>\<open>InitializePolicy\<close> holds finite constants, which \<^verbatim>\<open>json.Marshal\<close> encodes.\<close>

definition InitializePolicy :: "rebalance_state \<Rightarrow> rebalance_state \<times> error option" where
  "InitializePolicy st =
     (st\<lparr>policy := Some \<lparr>PolicyID = ''MBT_DEFAULT_POLICY'',
                          Name = ''MBT Standard Rebalancing Policy'',
                          GoldAllocation = Fin 0.50, SilverAllocation = Fin 0.30,
                          PlatinumAllocation = Fin 0.20, MaxDeviationPercent = Fin 0.05,
                          RebalanceIntervalDays = 30, MinTradeAmount = Fin 1000.0,
                          ApprovalThreshold = Fin 100000.0\<rparr>\<rparr>, None)"

text \<open>
  The contract's own \<^verbatim>\<open>GetBasketHoldings\<close> is a stand-in that returns fixed data ("In real
  implementation, would call the main MBT basket contract"). Every function that calls it
  takes the call as its first argument \<open>gh\<close>; \<open>MockBasketHoldings\<close> is the stand-in of the
  source.
\<close>

definition MockBasketHoldings :: "env \<Rightarrow> BasketHolding" where
  "MockBasketHoldings e =
     \<lparr>TotalMBTSupply = Fin 10000.0, TotalBGTValue = Fin 5000.0, TotalBSTValue = Fin 3000.0,
      TotalBPTValue = Fin 2000.0, RebalanceNeeded = False,
      LastRebalance = formatRFC3339 e (now e - 35 * 24 * hour_ns)\<rparr>"

definition GetCurrentMetalPrices :: "(string \<times> float64) list" where
  "GetCurrentMetalPrices = [(''BGT'', Fin 5800.0), (''BST'', Fin 75.0), (''BPT'', Fin 3200.0)]"

definition holdingsTotal :: "BasketHolding \<Rightarrow> float64" where
  "holdingsTotal holdings =
     fadd (fadd (TotalBGTValue holdings) (TotalBSTValue holdings)) (TotalBPTValue holdings)"

text \<open>\<^verbatim>\<open>EvaluateRebalanceNeed\<close>, lines 136 to 155: the three maps.\<close>

definition eval_currentAlloc :: "BasketHolding \<Rightarrow> (string \<times> float64) list" where
  "eval_currentAlloc holdings =
     [(''gold'', fdiv (TotalBGTValue holdings) (holdingsTotal holdings)),
      (''silver'', fdiv (TotalBSTValue holdings) (holdingsTotal holdings)),
      (''platinum'', fdiv (TotalBPTValue holdings) (holdingsTotal holdings))]"

definition eval_targetAlloc :: "RebalancePolicy \<Rightarrow> (string \<times> float64) list" where
  "eval_targetAlloc pol =
     [(''gold'', GoldAllocation pol),
      (''silver'', SilverAllocation pol),
      (''platinum'', PlatinumAllocation pol)]"

definition eval_deviations :: "RebalancePolicy \<Rightarrow> BasketHolding \<Rightarrow> (string \<times> float64) list" where
  "eval_deviations pol holdings =
     (let currentAlloc = eval_currentAlloc holdings; targetAlloc = eval_targetAlloc pol
      in [(''gold'', fsub (lookup0 currentAlloc ''gold'') (lookup0 targetAlloc ''gold'')),
          (''silver'', fsub (lookup0 currentAlloc ''silver'') (lookup0 targetAlloc ''silver'')),
          (''platinum'', fsub (lookup0 currentAlloc ''platinum'')
                              (lookup0 targetAlloc ''platinum''))])"

text \<open>
  Lines 158 to 169: the loop over the deviations, on the triple
  (\<^verbatim>\<open>maxDeviation\<close>, \<^verbatim>\<open>triggerType\<close>, \<^verbatim>\<open>triggerReason\<close>).
\<close>

fun deviation_scan ::
  "(string \<times> float64) list \<Rightarrow> float64 \<times> string \<times> trigger_reason
   \<Rightarrow> float64 \<times> string \<times> trigger_reason" where
  "deviation_scan [] acc = acc"
| "deviation_scan ((metal, deviation) # rest) (maxDeviation, triggerType, triggerReason) =
     (let absDeviation = math_Abs deviation
      in if fgt absDeviation maxDeviation
         then deviation_scan rest (absDeviation, ''DEVIATION'', DeviationIn metal absDeviation)
         else deviation_scan rest (maxDeviation, triggerType, triggerReason))"

text \<open>Lines 172 to 178: the time of the last rebalance and the days since.\<close>

definition eval_lastRebalance :: "env \<Rightarrow> BasketHolding \<Rightarrow> int" where
  "eval_lastRebalance e holdings =
     (case parseRFC3339 e (LastRebalance holdings) of
        None \<Rightarrow> now e - 24 * hour_ns
      | Some t \<Rightarrow> t)"

definition eval_daysSinceRebalance :: "env \<Rightarrow> BasketHolding \<Rightarrow> float64" where
  "eval_daysSinceRebalance e holdings = daysSince e (eval_lastRebalance e holdings)"

text \<open>Lines 179 to 185: the time gate, on the same triple.\<close>

definition eval_time_gate ::
  "env \<Rightarrow> RebalancePolicy \<Rightarrow> BasketHolding \<Rightarrow> float64 \<times> string \<times> trigger_reason
   \<Rightarrow> float64 \<times> string \<times> trigger_reason" where
  "eval_time_gate e pol holdings acc =
     (case acc of (maxDeviation, triggerType, triggerReason) \<Rightarrow>
        let daysSinceRebalance = eval_daysSinceRebalance e holdings
        in if fge daysSinceRebalance (Fin (real_of_int (RebalanceIntervalDays pol)))
           then (if flt maxDeviation (MaxDeviationPercent pol)
                 then (maxDeviation, ''TIME'', ScheduledAfter daysSinceRebalance)
                 else (maxDeviation, triggerType, triggerReason))
           else (maxDeviation, triggerType, triggerReason))"

text \<open>The triple when line 188 is reached.\<close>

definition eval_trigger ::
  "env \<Rightarrow> RebalancePolicy \<Rightarrow> BasketHolding \<Rightarrow> float64 \<times> string \<times> trigger_reason" where
  "eval_trigger e pol holdings =
     eval_time_gate e pol holdings
       (deviation_scan (eval_deviations pol holdings) (Fin 0.0, '''', NoReason))"

text \<open>\<^verbatim>\<open>CreateRebalanceRequest\<close>, lines 235 to 242: the largest trade.\<close>

fun maxTradeAmount_scan :: "float64 \<Rightarrow> (string \<times> float64) list \<Rightarrow> float64 \<Rightarrow> float64" where
  "maxTradeAmount_scan totalValue [] maxTradeAmount = maxTradeAmount"
| "maxTradeAmount_scan totalValue ((metal, deviation) # rest) maxTradeAmount =
     (if \<not> feq deviation (Fin 0)
      then
        (let metalValue = fmul totalValue (math_Abs deviation)
         in if fgt metalValue maxTradeAmount
            then maxTradeAmount_scan totalValue rest metalValue
            else maxTradeAmount_scan totalValue rest maxTradeAmount)
      else maxTradeAmount_scan totalValue rest maxTradeAmount)"

definition metalMapping :: "(string \<times> string) list" where
  "metalMapping = [(''gold'', ''BGT''), (''silver'', ''BST''), (''platinum'', ''BPT'')]"

text \<open>
  \<^verbatim>\<open>GenerateRebalanceOperations\<close>, lines 289 to 341: the loop that stores the operations. It
  stops with the error of the first operation that \<^verbatim>\<open>json.Marshal\<close> does not encode.
\<close>

fun generate_scan ::
  "env \<Rightarrow> RebalancePolicy \<Rightarrow> string \<Rightarrow> float64 \<Rightarrow> (string \<times> float64) list
   \<Rightarrow> RebalanceOperation list \<Rightarrow> RebalanceOperation list \<times> error option" where
  "generate_scan e pol requestID totalValue [] ops = (ops, None)"
| "generate_scan e pol requestID totalValue ((metal, deviation) # rest) ops =
     (if flt (math_Abs deviation) (Fin 0.001)
      then generate_scan e pol requestID totalValue rest ops
      else
        let metalType = (case map_of metalMapping metal of None \<Rightarrow> '''' | Some m \<Rightarrow> m);
            operationType = (if flt deviation (Fin 0) then ''SELL'' else ''BUY'');
            tradeAmount = fmul (math_Abs deviation) totalValue
        in if flt tradeAmount (MinTradeAmount pol)
           then generate_scan e pol requestID totalValue rest ops
           else
             let unitPrice =
                   (if metal = ''gold'' then lookup0 GetCurrentMetalPrices ''BGT''
                    else if metal = ''silver'' then lookup0 GetCurrentMetalPrices ''BST''
                    else if metal = ''platinum'' then lookup0 GetCurrentMetalPrices ''BPT''
                    else Fin 1.0);
                 operation =
                   \<lparr>OperationID = ''OP-'' @ dec_int (now e), OpRequestID = requestID,
                    MetalType = metalType, OperationType = operationType,
                    Amount = tradeAmount, CurrentPrice = unitPrice,
                    EstimatedCost = fmul tradeAmount unitPrice,
                    Timestamp = formatRFC3339 e (now e)\<rparr>
             in if \<not> marshal_operation_ok operation then (ops, Some MarshalFailed)
                else generate_scan e pol requestID totalValue rest (ops @ [operation]))"

definition GenerateRebalanceOperations ::
  "env \<Rightarrow> rebalance_state \<Rightarrow> string \<Rightarrow> (string \<times> float64) list \<Rightarrow> BasketHolding \<Rightarrow> float64
   \<Rightarrow> rebalance_state \<times> error option" where
  "GenerateRebalanceOperations e st requestID deviations holdings totalValue =
     (case policy st of
        None \<Rightarrow> (st, Some PolicyNotInitialized)
      | Some pol \<Rightarrow>
          (case generate_scan e pol requestID totalValue deviations (operations st) of
             (ops, Some err) \<Rightarrow> (st, Some err)
           | (ops, None) \<Rightarrow> (st\<lparr>operations := ops\<rparr>, None)))"

definition CreateRebalanceRequest ::
  "(env \<Rightarrow> BasketHolding) \<Rightarrow> env \<Rightarrow> rebalance_state \<Rightarrow> (string \<times> float64) list
   \<Rightarrow> (string \<times> float64) list \<Rightarrow> (string \<times> float64) list \<Rightarrow> string \<Rightarrow> trigger_reason
   \<Rightarrow> rebalance_state \<times> error option" where
  "CreateRebalanceRequest gh e st currentAlloc targetAlloc deviations requestType reason =
     (let requestID = ''REBAL-'' @ dec_int (now e);
          request = \<lparr>RequestID = requestID, BasketID = ''MBT_BASKET'',
                     RequestType = requestType, TriggerReason = reason,
                     CurrentAlloc = currentAlloc, TargetAlloc = targetAlloc,
                     Deviations = deviations, Status = ''PENDING'',
                     CreatedAt = formatRFC3339 e (now e), ExecutedAt = '''',
                     ApprovalRequired = True\<rparr>
      in case policy st of
           None \<Rightarrow> (st, Some PolicyNotInitialized)
         | Some pol \<Rightarrow>
             let holdings = gh e;
                 totalValue = holdingsTotal holdings;
                 maxTradeAmount = maxTradeAmount_scan totalValue deviations (Fin 0.0);
                 request1 =
                   request\<lparr>ApprovalRequired := fge maxTradeAmount (ApprovalThreshold pol)\<rparr>
             in if \<not> marshal_request_ok request1 then (st, Some MarshalFailed)
                else
                  let st1 = st\<lparr>requests := (requests st)(requestID \<mapsto> request1)\<rparr>
                  in on_error_discard st
                       (GenerateRebalanceOperations e st1 requestID deviations holdings
                          totalValue))"

definition EvaluateRebalanceNeed ::
  "(env \<Rightarrow> BasketHolding) \<Rightarrow> env \<Rightarrow> rebalance_state \<Rightarrow> rebalance_state \<times> error option" where
  "EvaluateRebalanceNeed gh e st =
     (let holdings = gh e
      in if feq (TotalMBTSupply holdings) (Fin 0) then (st, None)
         else
           case policy st of
             None \<Rightarrow> (st, Some PolicyNotInitialized)
           | Some pol \<Rightarrow>
               if feq (holdingsTotal holdings) (Fin 0) then (st, None)
               else
                 (case eval_trigger e pol holdings of
                    (maxDeviation, triggerType, triggerReason) \<Rightarrow>
                      if triggerType \<noteq> '''' \<and> fge maxDeviation (MaxDeviationPercent pol)
                      then CreateRebalanceRequest gh e st (eval_currentAlloc holdings)
                             (eval_targetAlloc pol) (eval_deviations pol holdings)
                             triggerType triggerReason
                      else (st, None)))"

definition ApproveRebalanceRequest ::
  "env \<Rightarrow> rebalance_state \<Rightarrow> string \<Rightarrow> string \<Rightarrow> rebalance_state \<times> error option" where
  "ApproveRebalanceRequest e st requestID approverID =
     (case requests st requestID of
        None \<Rightarrow> (st, Some RequestNotFound)
      | Some request \<Rightarrow>
          if Status request \<noteq> ''PENDING'' then (st, Some NotPending)
          else if \<not> ApprovalRequired request then (st, Some ApprovalNotRequired)
          else
            let request1 = request\<lparr>Status := ''APPROVED'',
                                   ExecutedAt := formatRFC3339 e (now e)\<rparr>
            in if \<not> marshal_request_ok request1 then (st, Some MarshalFailed)
               else (st\<lparr>requests := (requests st)(requestID \<mapsto> request1)\<rparr>, None))"

text \<open>\<^verbatim>\<open>ExecuteOperation\<close> only logs and returns \<^verbatim>\<open>nil\<close>.\<close>

definition ExecuteOperation :: "RebalanceOperation \<Rightarrow> error option" where
  "ExecuteOperation operation = None"

definition UpdateBasketAfterRebalance ::
  "(env \<Rightarrow> BasketHolding) \<Rightarrow> env \<Rightarrow> rebalance_state \<Rightarrow> (string \<times> float64) list
   \<Rightarrow> rebalance_state \<times> error option" where
  "UpdateBasketAfterRebalance gh e st deviations =
     (let holdings = gh e;
          totalValue = holdingsTotal holdings
      in if feq totalValue (Fin 0) then (st, None)
         else
           let holdings1 =
                 holdings\<lparr>TotalBGTValue :=
                            fadd (TotalBGTValue holdings)
                                 (fmul (lookup0 deviations ''gold'') totalValue),
                          TotalBSTValue :=
                            fadd (TotalBSTValue holdings)
                                 (fmul (lookup0 deviations ''silver'') totalValue),
                          TotalBPTValue :=
                            fadd (TotalBPTValue holdings)
                                 (fmul (lookup0 deviations ''platinum'') totalValue),
                          RebalanceNeeded := False,
                          LastRebalance := formatRFC3339 e (now e)\<rparr>
           in if \<not> marshal_holdings_ok holdings1 then (st, Some MarshalFailed)
              else (st\<lparr>written_holdings := Some holdings1\<rparr>, None))"

text \<open>
  \<^verbatim>\<open>ExecuteRebalance\<close>, lines 431 to 455: the loop over the stored operations of the request;
  it returns whether an operation failed, and the ids of the executed ones. The source
  iterates over every record of the world state and decodes each as an operation; a record
  of another kind that carries the request's id (the request itself) is passed to
  \<^verbatim>\<open>ExecuteOperation\<close> as well, which does nothing, so only the logged count differs.
\<close>

fun execute_scan :: "string \<Rightarrow> RebalanceOperation list \<Rightarrow> string list \<Rightarrow> bool \<times> string list" where
  "execute_scan requestID [] executedOperations = (False, executedOperations)"
| "execute_scan requestID (operation # rest) executedOperations =
     (if OpRequestID operation = requestID
      then (case ExecuteOperation operation of
              Some err \<Rightarrow> (True, executedOperations)
            | None \<Rightarrow> execute_scan requestID rest (executedOperations @ [OperationID operation]))
      else execute_scan requestID rest executedOperations)"

text \<open>
  A missing request makes \<^verbatim>\<open>json.Unmarshal\<close> fail on the \<^verbatim>\<open>nil\<close> bytes. An error of
  \<^verbatim>\<open>UpdateBasketAfterRebalance\<close> is only logged.
\<close>

definition ExecuteRebalance ::
  "(env \<Rightarrow> BasketHolding) \<Rightarrow> env \<Rightarrow> rebalance_state \<Rightarrow> string
   \<Rightarrow> rebalance_state \<times> error option" where
  "ExecuteRebalance gh e st requestID =
     (case requests st requestID of
        None \<Rightarrow> (st, Some UnmarshalRequestFailed)
      | Some request \<Rightarrow>
          if Status request \<noteq> ''APPROVED'' \<and>
             \<not> (Status request = ''PENDING'' \<and> \<not> ApprovalRequired request)
          then (st, Some NotReady)
          else
            let request1 =
                  (if fst (execute_scan requestID (operations st) [])
                   then request\<lparr>Status := ''FAILED''\<rparr> else request);
                request2 =
                  (if Status request1 \<noteq> ''FAILED''
                   then request1\<lparr>Status := ''EXECUTED'',
                                 ExecutedAt := formatRFC3339 e (now e)\<rparr>
                   else request1);
                st1 =
                  (if Status request1 \<noteq> ''FAILED''
                   then fst (UpdateBasketAfterRebalance gh e st (Deviations request2))
                   else st)
            in if \<not> marshal_request_ok request2 then (st, Some MarshalFailed)
               else (st1\<lparr>requests := (requests st1)(requestID \<mapsto> request2)\<rparr>, None))"


section \<open>The contracts with rounding as a parameter\<close>

text \<open>
  An arithmetic operation on two finite \<^verbatim>\<open>float64\<close> values returns the exact result rounded
  to a \<^verbatim>\<open>float64\<close> (IEEE 754: to the nearest value, to an infinity on overflow), and so does
  the conversion of an integer. The functions of this section are the translations of the
  same source functions with that rounding as the parameter \<open>rnd\<close>, which maps the exact
  result to the value the operation returns; with \<open>rnd = Fin\<close> they compute what the
  functions of the two sections above compute. A statement proved for every \<open>rnd\<close> does not
  depend on how the machine rounds. Comparison, negation and absolute value do not round
  and are the functions above. The sign of zero and the fusing of a multiplication with an
  addition, which Go allows on some architectures, are not modelled.
\<close>

fun fadd_r :: "(real \<Rightarrow> float64) \<Rightarrow> float64 \<Rightarrow> float64 \<Rightarrow> float64" where
  "fadd_r rnd (Fin x) (Fin y) = rnd (x + y)"
| "fadd_r rnd a b = fadd a b"

definition fsub_r :: "(real \<Rightarrow> float64) \<Rightarrow> float64 \<Rightarrow> float64 \<Rightarrow> float64" where
  "fsub_r rnd a b = fadd_r rnd a (fneg b)"

fun fmul_r :: "(real \<Rightarrow> float64) \<Rightarrow> float64 \<Rightarrow> float64 \<Rightarrow> float64" where
  "fmul_r rnd (Fin x) (Fin y) = rnd (x * y)"
| "fmul_r rnd a b = fmul a b"

fun fdiv_r :: "(real \<Rightarrow> float64) \<Rightarrow> float64 \<Rightarrow> float64 \<Rightarrow> float64" where
  "fdiv_r rnd (Fin x) (Fin y) = (if y = 0 then fdiv (Fin x) (Fin y) else rnd (x / y))"
| "fdiv_r rnd a b = fdiv a b"

text \<open>
  A decimal literal of the source denotes the \<^verbatim>\<open>float64\<close> nearest to it. The literals
  0.30, 0.20, 0.05 and 0.001 are not \<^verbatim>\<open>float64\<close> values and are rounded; the other
  literals of the source (0, 0.50, 1, 20, 24, 30, 50, 75, 3200, 5800, 1000000 and
  \<^verbatim>\<open>60*60*1e9\<close>) are \<^verbatim>\<open>float64\<close> values.
\<close>

definition SILVER_ALLOCATION_r :: "(real \<Rightarrow> float64) \<Rightarrow> float64" where
  "SILVER_ALLOCATION_r rnd = rnd 0.30"

definition PLATINUM_ALLOCATION_r :: "(real \<Rightarrow> float64) \<Rightarrow> float64" where
  "PLATINUM_ALLOCATION_r rnd = rnd 0.20"

definition MAX_DEVIATION_PERCENT_r :: "(real \<Rightarrow> float64) \<Rightarrow> float64" where
  "MAX_DEVIATION_PERCENT_r rnd = rnd 0.05"

text \<open>Go's \<^verbatim>\<open><=\<close> on \<^verbatim>\<open>float64\<close>.\<close>

definition fle :: "float64 \<Rightarrow> float64 \<Rightarrow> bool" where
  "fle a b = (flt a b \<or> feq a b)"

text \<open>
  Go's integer division truncates toward zero. \<^verbatim>\<open>Duration.Hours\<close> of the library is
  \<^verbatim>\<open>hour := d / Hour; nsec := d % Hour; return float64(hour) + float64(nsec)/(60*60*1e9)\<close>.
\<close>

definition go_quot :: "int \<Rightarrow> int \<Rightarrow> int" where
  "go_quot a b = sgn a * sgn b * (\<bar>a\<bar> div \<bar>b\<bar>)"

definition Hours_r :: "(real \<Rightarrow> float64) \<Rightarrow> int \<Rightarrow> float64" where
  "Hours_r rnd d =
     (let hour = go_quot d hour_ns;
          nsec = d - hour * hour_ns
      in fadd_r rnd (rnd (real_of_int hour))
           (fdiv_r rnd (rnd (real_of_int nsec)) (Fin 3600000000000)))"

definition daysSince_r :: "(real \<Rightarrow> float64) \<Rightarrow> env \<Rightarrow> int \<Rightarrow> float64" where
  "daysSince_r rnd e t = fdiv_r rnd (Hours_r rnd (now e - t)) (Fin 24)"

subsection \<open>The basket contract\<close>

definition CheckRebalanceNeeded_r :: "(real \<Rightarrow> float64) \<Rightarrow> env \<Rightarrow> BasketHolding \<Rightarrow> bool" where
  "CheckRebalanceNeeded_r rnd e holdings =
     (if feq (TotalMBTSupply holdings) (Fin 0) then False
      else
        let totalValue = fadd_r rnd (fadd_r rnd (TotalBGTValue holdings) (TotalBSTValue holdings))
                                (TotalBPTValue holdings)
        in if feq totalValue (Fin 0) then False
           else
             let currentGoldPct = fdiv_r rnd (TotalBGTValue holdings) totalValue;
                 currentSilverPct = fdiv_r rnd (TotalBSTValue holdings) totalValue;
                 currentPlatinumPct = fdiv_r rnd (TotalBPTValue holdings) totalValue;
                 goldDeviation = abs_f (fsub_r rnd currentGoldPct GOLD_ALLOCATION);
                 silverDeviation = abs_f (fsub_r rnd currentSilverPct (SILVER_ALLOCATION_r rnd));
                 platinumDeviation = abs_f (fsub_r rnd currentPlatinumPct (PLATINUM_ALLOCATION_r rnd))
             in if fgt goldDeviation (MAX_DEVIATION_PERCENT_r rnd) \<or>
                   fgt silverDeviation (MAX_DEVIATION_PERCENT_r rnd) \<or>
                   fgt platinumDeviation (MAX_DEVIATION_PERCENT_r rnd)
                then True
                else (case parseRFC3339 e (LastRebalance holdings) of
                        None \<Rightarrow> True
                      | Some lastRebalance \<Rightarrow>
                          if fge (daysSince_r rnd e lastRebalance) REBALANCE_INTERVAL_DAYS
                          then True
                          else False))"

definition UpdateBasketHoldings_r ::
  "(real \<Rightarrow> float64) \<Rightarrow> env \<Rightarrow> basket_state \<Rightarrow> float64 \<Rightarrow> float64 \<Rightarrow> float64 \<Rightarrow> float64
   \<Rightarrow> bool \<Rightarrow> basket_state \<times> error option" where
  "UpdateBasketHoldings_r rnd e st mbtAmount bgtValue bstValue bptValue isMint =
     (let holdings = GetBasketHoldings e st;
          holdings1 =
            (if isMint then
               holdings\<lparr>TotalMBTSupply := fadd_r rnd (TotalMBTSupply holdings) mbtAmount,
                        TotalBGTValue := fadd_r rnd (TotalBGTValue holdings) bgtValue,
                        TotalBSTValue := fadd_r rnd (TotalBSTValue holdings) bstValue,
                        TotalBPTValue := fadd_r rnd (TotalBPTValue holdings) bptValue\<rparr>
             else
               holdings\<lparr>TotalMBTSupply := fsub_r rnd (TotalMBTSupply holdings) mbtAmount,
                        TotalBGTValue := fsub_r rnd (TotalBGTValue holdings) bgtValue,
                        TotalBSTValue := fsub_r rnd (TotalBSTValue holdings) bstValue,
                        TotalBPTValue := fsub_r rnd (TotalBPTValue holdings) bptValue\<rparr>);
          holdings2 = holdings1\<lparr>RebalanceNeeded := CheckRebalanceNeeded_r rnd e holdings1\<rparr>
      in if \<not> marshal_holdings_ok holdings2 then (st, Some MarshalFailed)
         else (st\<lparr>basket_holdings := Some holdings2\<rparr>, None))"

definition MintMBT_r ::
  "(real \<Rightarrow> float64) \<Rightarrow> env \<Rightarrow> basket_state \<Rightarrow> string \<Rightarrow> float64 \<Rightarrow> string
   \<Rightarrow> basket_state \<times> error option" where
  "MintMBT_r rnd e st owner totalAmount userID =
     (let balance = GetUserBalance userID totalAmount
      in if flt balance totalAmount then (st, Some InsufficientBalance)
         else
           let goldAmount = fmul_r rnd totalAmount GOLD_ALLOCATION;
               silverAmount = fmul_r rnd totalAmount (SILVER_ALLOCATION_r rnd);
               platinumAmount = fmul_r rnd totalAmount (PLATINUM_ALLOCATION_r rnd);
               tokenID = mintTokenID e;
               mbtToken = \<lparr>TokenID = tokenID, Owner = owner, TotalValue = totalAmount,
                           BGTAmount = goldAmount, BSTAmount = silverAmount,
                           BPTAmount = platinumAmount,
                           CreationTime = formatRFC3339 e (now e),
                           TokenLastRebalance = formatRFC3339 e (now e),
                           Composition = \<lparr>Gold = Fin 50, Silver = Fin 30, Platinum = Fin 20\<rparr>\<rparr>
           in if \<not> marshal_token_ok mbtToken then (st, Some MarshalFailed)
              else
                let st1 = st\<lparr>tokens := (tokens st)(tokenID \<mapsto> mbtToken)\<rparr>
                in case DeductUserBalance userID totalAmount of
                     Some err \<Rightarrow> (st, Some err)
                   | None \<Rightarrow>
                       (case AllocateToMetalTokens userID goldAmount silverAmount platinumAmount of
                          Some err \<Rightarrow> (st, Some err)
                        | None \<Rightarrow>
                            on_error_discard st
                              (UpdateBasketHoldings_r rnd e st1 totalAmount goldAmount
                                 silverAmount platinumAmount True)))"

definition RedeemMBT_r ::
  "(real \<Rightarrow> float64) \<Rightarrow> env \<Rightarrow> basket_state \<Rightarrow> string \<Rightarrow> float64 \<Rightarrow> string
   \<Rightarrow> basket_state \<times> error option" where
  "RedeemMBT_r rnd e st tokenID amount userID =
     (case tokens st tokenID of
        None \<Rightarrow> (st, Some TokenNotFound)
      | Some token \<Rightarrow>
          if Owner token \<noteq> userID then (st, Some Unauthorized)
          else if fgt amount (TotalValue token) then (st, Some InsufficientTokenBalance)
          else
            let redemptionRatio = fdiv_r rnd amount (TotalValue token);
                redemptionBGT = fmul_r rnd (BGTAmount token) redemptionRatio;
                redemptionBST = fmul_r rnd (BSTAmount token) redemptionRatio;
                redemptionBPT = fmul_r rnd (BPTAmount token) redemptionRatio
            in case ProcessMetalRedemption userID redemptionBGT redemptionBST redemptionBPT of
                 Some err \<Rightarrow> (st, Some err)
               | None \<Rightarrow>
                   if feq amount (TotalValue token)
                   then
                     on_error_discard st
                       (UpdateBasketHoldings_r rnd e
                          (st\<lparr>tokens := (tokens st)(tokenID := None)\<rparr>)
                          amount redemptionBGT redemptionBST redemptionBPT False)
                   else
                     let token1 =
                           token\<lparr>TotalValue := fsub_r rnd (TotalValue token) amount,
                                 BGTAmount := fsub_r rnd (BGTAmount token) redemptionBGT,
                                 BSTAmount := fsub_r rnd (BSTAmount token) redemptionBST,
                                 BPTAmount := fsub_r rnd (BPTAmount token) redemptionBPT,
                                 TokenLastRebalance := formatRFC3339 e (now e)\<rparr>
                     in if \<not> marshal_token_ok token1 then (st, Some MarshalFailed)
                        else
                          on_error_discard st
                            (UpdateBasketHoldings_r rnd e
                               (st\<lparr>tokens := (tokens st)(tokenID \<mapsto> token1)\<rparr>)
                               amount redemptionBGT redemptionBST redemptionBPT False))"

definition RebalanceBasket_r ::
  "(real \<Rightarrow> float64) \<Rightarrow> env \<Rightarrow> basket_state \<Rightarrow> basket_state \<times> error option" where
  "RebalanceBasket_r rnd e st =
     (let holdings = GetBasketHoldings e st
      in if \<not> RebalanceNeeded holdings then (st, None)
         else
           let totalValue = fadd_r rnd (fadd_r rnd (TotalBGTValue holdings) (TotalBSTValue holdings))
                                   (TotalBPTValue holdings)
           in if feq totalValue (Fin 0) then (st, None)
              else
                let targetBGT = fmul_r rnd totalValue GOLD_ALLOCATION;
                    targetBST = fmul_r rnd totalValue (SILVER_ALLOCATION_r rnd);
                    targetBPT = fmul_r rnd totalValue (PLATINUM_ALLOCATION_r rnd);
                    holdings1 = holdings\<lparr>TotalBGTValue := targetBGT,
                                         TotalBSTValue := targetBST,
                                         TotalBPTValue := targetBPT,
                                         RebalanceNeeded := False,
                                         LastRebalance := formatRFC3339 e (now e)\<rparr>
                in if \<not> marshal_holdings_ok holdings1 then (st, Some MarshalFailed)
                   else (st\<lparr>basket_holdings := Some holdings1\<rparr>, None))"

subsection \<open>The rebalancing contract\<close>

definition holdingsTotal_r :: "(real \<Rightarrow> float64) \<Rightarrow> BasketHolding \<Rightarrow> float64" where
  "holdingsTotal_r rnd holdings =
     fadd_r rnd (fadd_r rnd (TotalBGTValue holdings) (TotalBSTValue holdings))
       (TotalBPTValue holdings)"

definition eval_currentAlloc_r ::
  "(real \<Rightarrow> float64) \<Rightarrow> BasketHolding \<Rightarrow> (string \<times> float64) list" where
  "eval_currentAlloc_r rnd holdings =
     [(''gold'', fdiv_r rnd (TotalBGTValue holdings) (holdingsTotal_r rnd holdings)),
      (''silver'', fdiv_r rnd (TotalBSTValue holdings) (holdingsTotal_r rnd holdings)),
      (''platinum'', fdiv_r rnd (TotalBPTValue holdings) (holdingsTotal_r rnd holdings))]"

definition eval_deviations_r ::
  "(real \<Rightarrow> float64) \<Rightarrow> RebalancePolicy \<Rightarrow> BasketHolding \<Rightarrow> (string \<times> float64) list" where
  "eval_deviations_r rnd pol holdings =
     (let currentAlloc = eval_currentAlloc_r rnd holdings; targetAlloc = eval_targetAlloc pol
      in [(''gold'', fsub_r rnd (lookup0 currentAlloc ''gold'') (lookup0 targetAlloc ''gold'')),
          (''silver'', fsub_r rnd (lookup0 currentAlloc ''silver'')
                                  (lookup0 targetAlloc ''silver'')),
          (''platinum'', fsub_r rnd (lookup0 currentAlloc ''platinum'')
                                    (lookup0 targetAlloc ''platinum''))])"

definition eval_daysSinceRebalance_r :: "(real \<Rightarrow> float64) \<Rightarrow> env \<Rightarrow> BasketHolding \<Rightarrow> float64" where
  "eval_daysSinceRebalance_r rnd e holdings = daysSince_r rnd e (eval_lastRebalance e holdings)"

definition eval_time_gate_r ::
  "(real \<Rightarrow> float64) \<Rightarrow> env \<Rightarrow> RebalancePolicy \<Rightarrow> BasketHolding
   \<Rightarrow> float64 \<times> string \<times> trigger_reason \<Rightarrow> float64 \<times> string \<times> trigger_reason" where
  "eval_time_gate_r rnd e pol holdings acc =
     (case acc of (maxDeviation, triggerType, triggerReason) \<Rightarrow>
        let daysSinceRebalance = eval_daysSinceRebalance_r rnd e holdings
        in if fge daysSinceRebalance (rnd (real_of_int (RebalanceIntervalDays pol)))
           then (if flt maxDeviation (MaxDeviationPercent pol)
                 then (maxDeviation, ''TIME'', ScheduledAfter daysSinceRebalance)
                 else (maxDeviation, triggerType, triggerReason))
           else (maxDeviation, triggerType, triggerReason))"

definition eval_trigger_r ::
  "(real \<Rightarrow> float64) \<Rightarrow> env \<Rightarrow> RebalancePolicy \<Rightarrow> BasketHolding
   \<Rightarrow> float64 \<times> string \<times> trigger_reason" where
  "eval_trigger_r rnd e pol holdings =
     eval_time_gate_r rnd e pol holdings
       (deviation_scan (eval_deviations_r rnd pol holdings) (Fin 0.0, '''', NoReason))"

fun maxTradeAmount_scan_r ::
  "(real \<Rightarrow> float64) \<Rightarrow> float64 \<Rightarrow> (string \<times> float64) list \<Rightarrow> float64 \<Rightarrow> float64" where
  "maxTradeAmount_scan_r rnd totalValue [] maxTradeAmount = maxTradeAmount"
| "maxTradeAmount_scan_r rnd totalValue ((metal, deviation) # rest) maxTradeAmount =
     (if \<not> feq deviation (Fin 0)
      then
        (let metalValue = fmul_r rnd totalValue (math_Abs deviation)
         in if fgt metalValue maxTradeAmount
            then maxTradeAmount_scan_r rnd totalValue rest metalValue
            else maxTradeAmount_scan_r rnd totalValue rest maxTradeAmount)
      else maxTradeAmount_scan_r rnd totalValue rest maxTradeAmount)"

fun generate_scan_r ::
  "(real \<Rightarrow> float64) \<Rightarrow> env \<Rightarrow> RebalancePolicy \<Rightarrow> string \<Rightarrow> float64 \<Rightarrow> (string \<times> float64) list
   \<Rightarrow> RebalanceOperation list \<Rightarrow> RebalanceOperation list \<times> error option" where
  "generate_scan_r rnd e pol requestID totalValue [] ops = (ops, None)"
| "generate_scan_r rnd e pol requestID totalValue ((metal, deviation) # rest) ops =
     (if flt (math_Abs deviation) (rnd 0.001)
      then generate_scan_r rnd e pol requestID totalValue rest ops
      else
        let metalType = (case map_of metalMapping metal of None \<Rightarrow> '''' | Some m \<Rightarrow> m);
            operationType = (if flt deviation (Fin 0) then ''SELL'' else ''BUY'');
            tradeAmount = fmul_r rnd (math_Abs deviation) totalValue
        in if flt tradeAmount (MinTradeAmount pol)
           then generate_scan_r rnd e pol requestID totalValue rest ops
           else
             let unitPrice =
                   (if metal = ''gold'' then lookup0 GetCurrentMetalPrices ''BGT''
                    else if metal = ''silver'' then lookup0 GetCurrentMetalPrices ''BST''
                    else if metal = ''platinum'' then lookup0 GetCurrentMetalPrices ''BPT''
                    else Fin 1.0);
                 operation =
                   \<lparr>OperationID = ''OP-'' @ dec_int (now e), OpRequestID = requestID,
                    MetalType = metalType, OperationType = operationType,
                    Amount = tradeAmount, CurrentPrice = unitPrice,
                    EstimatedCost = fmul_r rnd tradeAmount unitPrice,
                    Timestamp = formatRFC3339 e (now e)\<rparr>
             in if \<not> marshal_operation_ok operation then (ops, Some MarshalFailed)
                else generate_scan_r rnd e pol requestID totalValue rest (ops @ [operation]))"

definition GenerateRebalanceOperations_r ::
  "(real \<Rightarrow> float64) \<Rightarrow> env \<Rightarrow> rebalance_state \<Rightarrow> string \<Rightarrow> (string \<times> float64) list
   \<Rightarrow> BasketHolding \<Rightarrow> float64 \<Rightarrow> rebalance_state \<times> error option" where
  "GenerateRebalanceOperations_r rnd e st requestID deviations holdings totalValue =
     (case policy st of
        None \<Rightarrow> (st, Some PolicyNotInitialized)
      | Some pol \<Rightarrow>
          (case generate_scan_r rnd e pol requestID totalValue deviations (operations st) of
             (ops, Some err) \<Rightarrow> (st, Some err)
           | (ops, None) \<Rightarrow> (st\<lparr>operations := ops\<rparr>, None)))"

definition CreateRebalanceRequest_r ::
  "(real \<Rightarrow> float64) \<Rightarrow> (env \<Rightarrow> BasketHolding) \<Rightarrow> env \<Rightarrow> rebalance_state
   \<Rightarrow> (string \<times> float64) list \<Rightarrow> (string \<times> float64) list \<Rightarrow> (string \<times> float64) list
   \<Rightarrow> string \<Rightarrow> trigger_reason \<Rightarrow> rebalance_state \<times> error option" where
  "CreateRebalanceRequest_r rnd gh e st currentAlloc targetAlloc deviations requestType reason =
     (let requestID = ''REBAL-'' @ dec_int (now e);
          request = \<lparr>RequestID = requestID, BasketID = ''MBT_BASKET'',
                     RequestType = requestType, TriggerReason = reason,
                     CurrentAlloc = currentAlloc, TargetAlloc = targetAlloc,
                     Deviations = deviations, Status = ''PENDING'',
                     CreatedAt = formatRFC3339 e (now e), ExecutedAt = '''',
                     ApprovalRequired = True\<rparr>
      in case policy st of
           None \<Rightarrow> (st, Some PolicyNotInitialized)
         | Some pol \<Rightarrow>
             let holdings = gh e;
                 totalValue = holdingsTotal_r rnd holdings;
                 maxTradeAmount = maxTradeAmount_scan_r rnd totalValue deviations (Fin 0.0);
                 request1 =
                   request\<lparr>ApprovalRequired := fge maxTradeAmount (ApprovalThreshold pol)\<rparr>
             in if \<not> marshal_request_ok request1 then (st, Some MarshalFailed)
                else
                  let st1 = st\<lparr>requests := (requests st)(requestID \<mapsto> request1)\<rparr>
                  in on_error_discard st
                       (GenerateRebalanceOperations_r rnd e st1 requestID deviations holdings
                          totalValue))"

definition EvaluateRebalanceNeed_r ::
  "(real \<Rightarrow> float64) \<Rightarrow> (env \<Rightarrow> BasketHolding) \<Rightarrow> env \<Rightarrow> rebalance_state
   \<Rightarrow> rebalance_state \<times> error option" where
  "EvaluateRebalanceNeed_r rnd gh e st =
     (let holdings = gh e
      in if feq (TotalMBTSupply holdings) (Fin 0) then (st, None)
         else
           case policy st of
             None \<Rightarrow> (st, Some PolicyNotInitialized)
           | Some pol \<Rightarrow>
               if feq (holdingsTotal_r rnd holdings) (Fin 0) then (st, None)
               else
                 (case eval_trigger_r rnd e pol holdings of
                    (maxDeviation, triggerType, triggerReason) \<Rightarrow>
                      if triggerType \<noteq> '''' \<and> fge maxDeviation (MaxDeviationPercent pol)
                      then CreateRebalanceRequest_r rnd gh e st (eval_currentAlloc_r rnd holdings)
                             (eval_targetAlloc pol) (eval_deviations_r rnd pol holdings)
                             triggerType triggerReason
                      else (st, None)))"

section \<open>Quantities the statements speak about\<close>

text \<open>The four amounts of the aggregate holdings.\<close>

definition holdings_amounts :: "BasketHolding \<Rightarrow> float64 \<times> float64 \<times> float64 \<times> float64" where
  "holdings_amounts h = (TotalMBTSupply h, TotalBGTValue h, TotalBSTValue h, TotalBPTValue h)"

text \<open>The value of \<^verbatim>\<open>maxDeviation\<close> after the loop of \<^verbatim>\<open>EvaluateRebalanceNeed\<close>.\<close>

definition eval_maxDeviation :: "RebalancePolicy \<Rightarrow> BasketHolding \<Rightarrow> float64" where
  "eval_maxDeviation pol holdings =
     fst (deviation_scan (eval_deviations pol holdings) (Fin 0.0, '''', NoReason))"














section \<open>Concrete states for the examples\<close>

text \<open>
  A clock for the examples. It formats and parses two instants, 3 November 2026 and
  8 December 2026 (35 days later), both at 00:00:00 UTC.
\<close>

definition sample_env :: "int \<Rightarrow> env" where
  "sample_env t =
     \<lparr>now = t,
      parseRFC3339 = (\<lambda>s. if s = ''2026-11-03T00:00:00Z'' then Some 1793664000000000000
                          else if s = ''2026-12-08T00:00:00Z'' then Some 1796688000000000000
                          else None),
      formatRFC3339 = (\<lambda>t. if t = 1793664000000000000 then ''2026-11-03T00:00:00Z''
                           else if t = 1796688000000000000 then ''2026-12-08T00:00:00Z''
                           else ''T'' @ dec_int t)\<rparr>"

definition nov3 :: env where
  "nov3 = sample_env 1793664000000000000"

definition dec8 :: env where
  "dec8 = sample_env 1796688000000000000"

definition empty_basket :: basket_state where
  "empty_basket = \<lparr>tokens = Map.empty, basket_holdings = None\<rparr>"

definition empty_rebalance :: rebalance_state where
  "empty_rebalance =
     \<lparr>policy = None, requests = Map.empty, operations = [], written_holdings = None\<rparr>"

definition initialized :: rebalance_state where
  "initialized = fst (InitializePolicy empty_rebalance)"

definition default_policy :: RebalancePolicy where
  "default_policy =
     \<lparr>PolicyID = ''MBT_DEFAULT_POLICY'', Name = ''MBT Standard Rebalancing Policy'',
      GoldAllocation = Fin 0.50, SilverAllocation = Fin 0.30, PlatinumAllocation = Fin 0.20,
      MaxDeviationPercent = Fin 0.05, RebalanceIntervalDays = 30,
      MinTradeAmount = Fin 1000.0, ApprovalThreshold = Fin 100000.0\<rparr>"

text \<open>Holdings that have drifted to 60/25/15, last rebalanced 35 days ago.\<close>

definition DriftedHoldings :: "env \<Rightarrow> BasketHolding" where
  "DriftedHoldings e =
     \<lparr>TotalMBTSupply = Fin 10000.0, TotalBGTValue = Fin 6000.0, TotalBSTValue = Fin 2500.0,
      TotalBPTValue = Fin 1500.0, RebalanceNeeded = False,
      LastRebalance = formatRFC3339 e (now e - 35 * 24 * hour_ns)\<rparr>"

definition drifted_evaluated :: rebalance_state where
  "drifted_evaluated = fst (EvaluateRebalanceNeed DriftedHoldings dec8 initialized)"

definition drifted_requestID :: string where
  "drifted_requestID = ''REBAL-'' @ dec_int (now dec8)"

definition drifted_executed :: rebalance_state where
  "drifted_executed = fst (ExecuteRebalance DriftedHoldings dec8 drifted_evaluated drifted_requestID)"

text \<open>Holdings at 52/29/19 whose timestamp does not parse.\<close>

definition undated_holdings :: BasketHolding where
  "undated_holdings =
     \<lparr>TotalMBTSupply = Fin 10000.0, TotalBGTValue = Fin 5200.0, TotalBSTValue = Fin 2900.0,
      TotalBPTValue = Fin 1900.0, RebalanceNeeded = False,
      LastRebalance = ''not a timestamp''\<rparr>"

text \<open>States of the basket contract after one mint.\<close>

definition minted_zero :: basket_state where
  "minted_zero = fst (MintMBT nov3 empty_basket ''alice'' (Fin 0) ''alice'')"

definition minted_1000 :: basket_state where
  "minted_1000 = fst (MintMBT nov3 empty_basket ''alice'' (Fin 1000) ''alice'')"

definition minted_negative :: basket_state where
  "minted_negative = fst (MintMBT nov3 empty_basket ''alice'' (Fin (- 100)) ''alice'')"

text \<open>A request with a given status and approval flag, and a state that stores it.\<close>

definition sample_request :: "string \<Rightarrow> bool \<Rightarrow> RebalanceRequest" where
  "sample_request status approval =
     \<lparr>RequestID = ''REBAL-1'', BasketID = ''MBT_BASKET'', RequestType = ''DEVIATION'',
      TriggerReason = DeviationIn ''gold'' (Fin 0.1),
      CurrentAlloc = [(''gold'', Fin 0.6), (''silver'', Fin 0.25), (''platinum'', Fin 0.15)],
      TargetAlloc = [(''gold'', Fin 0.5), (''silver'', Fin 0.3), (''platinum'', Fin 0.2)],
      Deviations = [(''gold'', Fin 0.1), (''silver'', Fin (- 0.05)), (''platinum'', Fin (- 0.05))],
      Status = status, CreatedAt = ''2026-11-03T00:00:00Z'', ExecutedAt = '''',
      ApprovalRequired = approval\<rparr>"

definition with_request :: "RebalanceRequest \<Rightarrow> rebalance_state" where
  "with_request r = initialized\<lparr>requests := [''REBAL-1'' \<mapsto> r]\<rparr>"

text \<open>The token of \<open>minted_1000\<close>, and the state after 400 of it were redeemed.\<close>

definition alice_token :: MBTToken where
  "alice_token =
     \<lparr>TokenID = mintTokenID nov3, Owner = ''alice'', TotalValue = Fin 1000,
      BGTAmount = Fin 500, BSTAmount = Fin 300, BPTAmount = Fin 200,
      CreationTime = ''2026-11-03T00:00:00Z'', TokenLastRebalance = ''2026-11-03T00:00:00Z'',
      Composition = \<lparr>Gold = Fin 50, Silver = Fin 30, Platinum = Fin 20\<rparr>\<rparr>"


text \<open>
  A rounding for the examples, to the nearest hundredth (a half upward), and the state
  after a mint of 0.05 with it: the constituent amounts 0.025, 0.015 and 0.01 are stored as
  0.03, 0.02 and 0.01.
\<close>

definition to_cents :: "real \<Rightarrow> float64" where
  "to_cents x = Fin (real_of_int \<lfloor>x * 100 + 1 / 2\<rfloor> / 100)"



section \<open>Arithmetic of the number model\<close>

lemma feq_Fin [simp]: "feq (Fin x) (Fin y) = (x = y)"
  by (simp add: feq_def)

lemma fgt_Fin [simp]: "fgt (Fin x) (Fin y) = (y < x)"
  by (simp add: fgt_def)

lemma fge_Fin [simp]: "fge (Fin x) (Fin y) = (y \<le> x)"
  by (auto simp add: fge_def)

lemma fsub_Fin [simp]: "fsub (Fin x) (Fin y) = Fin (x - y)"
  by (simp add: fsub_def)

lemma abs_f_Fin [simp]: "abs_f (Fin x) = Fin \<bar>x\<bar>"
  by (simp add: abs_f_def)

lemma fadd_NaN_right [simp]: "fadd a NaN = NaN"
  by (cases a) simp_all

lemma fsub_NaN_right [simp]: "fsub a NaN = NaN"
  by (simp add: fsub_def)

lemma fmul_NaN_right [simp]: "fmul a NaN = NaN"
  by (cases a) simp_all

lemma fdiv_NaN_right [simp]: "fdiv a NaN = NaN"
  by (cases a) simp_all

lemma flt_NaN_right [simp]: "flt a NaN = False"
  by (cases a) simp_all

lemma fadd_fsub_cancel: "fsub (fadd X (Fin y)) (Fin y) = X"
  by (cases X) (simp_all add: fsub_def)


lemma flt_not_fge: "flt a b \<Longrightarrow> \<not> fge a b"
  by (cases a; cases b) (simp_all add: fge_def feq_def)

lemma is_finite_iff: "is_finite x = (\<exists>r. x = Fin r)"
  by (cases x) simp_all

text \<open>The definitions that unfold an invocation of the basket contract.\<close>

lemmas basket_defs =
  MintMBT_def RedeemMBT_def RebalanceBasket_def UpdateBasketHoldings_def GetBasketHoldings_def
  GetUserBalance_def DeductUserBalance_def AllocateToMetalTokens_def ProcessMetalRedemption_def
  marshal_token_ok_def marshal_holdings_ok_def on_error_discard_def
  GOLD_ALLOCATION_def SILVER_ALLOCATION_def PLATINUM_ALLOCATION_def Let_def

lemma GetBasketHoldings_tokens [simp]:
  "GetBasketHoldings e (st\<lparr>tokens := m\<rparr>) = GetBasketHoldings e st"
  by (simp add: GetBasketHoldings_def)

lemma is_finite_fadd [simp]: "is_finite (fadd X (Fin y)) = is_finite X"
  by (cases X) simp_all

lemma is_finite_fsub [simp]: "is_finite (fsub X (Fin y)) = is_finite X"
  by (cases X) (simp_all add: fsub_def)

text \<open>A mint of a finite amount succeeds only on finite holdings.\<close>

lemma MintMBT_success_holdings:
  assumes "snd (MintMBT e st owner (Fin a) userID) = None"
  shows "marshal_holdings_ok (GetBasketHoldings e st)"
  using assms
  by (auto simp add: MintMBT_def UpdateBasketHoldings_def GetUserBalance_def
      DeductUserBalance_def AllocateToMetalTokens_def marshal_token_ok_def
      marshal_holdings_ok_def on_error_discard_def GOLD_ALLOCATION_def SILVER_ALLOCATION_def
      PLATINUM_ALLOCATION_def Let_def split: if_splits)

section \<open>The loops of the rebalancing contract\<close>

lemma execute_scan_never_fails: "fst (execute_scan rid ops acc) = False"
  by (induction ops arbitrary: acc) (simp_all add: ExecuteOperation_def)


lemma eval_trigger_fst: "fst (eval_trigger e pol h) = eval_maxDeviation pol h"
  by (simp add: eval_trigger_def eval_time_gate_def eval_maxDeviation_def Let_def
      split: prod.splits)

lemma policy_initialized: "policy initialized = Some default_policy"
  by (simp add: initialized_def InitializePolicy_def default_policy_def empty_rebalance_def)


text \<open>For finite holdings the scan computes the largest absolute deviation.\<close>

lemma eval_maxDeviation_finite:
  assumes "holdings_amounts h = (Fin S, Fin b, Fin s, Fin p)" and "b + s + p \<noteq> 0"
      and "GoldAllocation pol = Fin tg" and "SilverAllocation pol = Fin ts"
      and "PlatinumAllocation pol = Fin tp"
  shows "eval_maxDeviation pol h =
           Fin (max (max \<bar>b / (b + s + p) - tg\<bar> \<bar>s / (b + s + p) - ts\<bar>) \<bar>p / (b + s + p) - tp\<bar>)"
  using assms
  by (auto simp add: eval_maxDeviation_def eval_deviations_def eval_currentAlloc_def
      eval_targetAlloc_def holdingsTotal_def holdings_amounts_def lookup0_def Let_def max_def)

lemma generate_scan_ok:
  assumes "is_finite totalValue" and "list_all (\<lambda>kv. is_finite (snd kv)) ds"
  shows "snd (generate_scan e pol requestID totalValue ds ops) = None"
  using assms
proof (induction ds arbitrary: ops)
  case Nil
  then show ?case by simp
next
  case (Cons d ds)
  obtain metal deviation where d: "d = (metal, deviation)" by (cases d)
  from Cons.prems obtain t x where fin: "totalValue = Fin t" "deviation = Fin x"
    by (auto simp add: d is_finite_iff)
  show ?case
    using Cons.IH Cons.prems
    by (simp add: d fin Let_def marshal_operation_ok_def lookup0_def GetCurrentMetalPrices_def)
qed

lemma CreateRebalanceRequest_stores:
  assumes "policy st = Some pol"
      and "is_finite (holdingsTotal (gh e))"
      and "list_all (\<lambda>kv. is_finite (snd kv)) ca"
      and "list_all (\<lambda>kv. is_finite (snd kv)) ta"
      and "list_all (\<lambda>kv. is_finite (snd kv)) ds"
  shows "snd (CreateRebalanceRequest gh e st ca ta ds ty reason) = None \<and>
         (\<exists>r. requests (fst (CreateRebalanceRequest gh e st ca ta ds ty reason))
                 (''REBAL-'' @ dec_int (now e)) = Some r \<and>
              RequestType r = ty \<and> Status r = ''PENDING'' \<and> Deviations r = ds)"
proof -
  obtain ops where g: "generate_scan e pol (''REBAL-'' @ dec_int (now e)) (holdingsTotal (gh e))
                         ds (operations st) = (ops, None)"
    using generate_scan_ok[OF assms(2,5), of e pol "''REBAL-'' @ dec_int (now e)" "operations st"]
    by (cases "generate_scan e pol (''REBAL-'' @ dec_int (now e)) (holdingsTotal (gh e))
                 ds (operations st)") simp
  show ?thesis
    using assms g
    by (simp add: CreateRebalanceRequest_def GenerateRebalanceOperations_def Let_def
        marshal_request_ok_def on_error_discard_def)
qed

lemma eval_maps_finite:
  assumes "holdings_amounts h = (Fin S, Fin b, Fin s, Fin p)" and "b + s + p \<noteq> 0"
      and "GoldAllocation pol = Fin tg" and "SilverAllocation pol = Fin ts"
      and "PlatinumAllocation pol = Fin tp"
  shows "is_finite (holdingsTotal h)"
    and "list_all (\<lambda>kv. is_finite (snd kv)) (eval_currentAlloc h)"
    and "list_all (\<lambda>kv. is_finite (snd kv)) (eval_targetAlloc pol)"
    and "list_all (\<lambda>kv. is_finite (snd kv)) (eval_deviations pol h)"
  using assms
  by (simp_all add: holdings_amounts_def holdingsTotal_def eval_currentAlloc_def
      eval_targetAlloc_def eval_deviations_def lookup0_def Let_def)


section \<open>The invariant of the basket contract\<close>















section \<open>The contracts with rounding\<close>






text \<open>Monotone rounding keeps a sum and a product of values that are not negative from falling below zero.\<close>

lemma fle_Fin [simp]: "fle (Fin x) (Fin y) = (x \<le> y)"
  by (auto simp add: fle_def)







lemmas basket_r_defs =
  MintMBT_r_def RedeemMBT_r_def RebalanceBasket_r_def UpdateBasketHoldings_r_def
  GetBasketHoldings_def GetUserBalance_def DeductUserBalance_def AllocateToMetalTokens_def
  ProcessMetalRedemption_def marshal_token_ok_def marshal_holdings_ok_def on_error_discard_def
  Let_def















section \<open>The exact contracts as an instance of the contracts with rounding\<close>

text \<open>
  With the rounding that returns the exact result, the functions with rounding are the
  functions of the exact translation.
\<close>

lemma fadd_r_exact: "fadd_r Fin a b = fadd a b"
  by (cases a; cases b) simp_all

lemma fsub_r_exact: "fsub_r Fin a b = fsub a b"
  by (simp add: fsub_r_def fsub_def fadd_r_exact)

lemma fmul_r_exact: "fmul_r Fin a b = fmul a b"
  by (cases a; cases b) simp_all

lemma fdiv_r_exact: "fdiv_r Fin a b = fdiv a b"
  by (cases a; cases b) simp_all

lemmas exact_arith = fadd_r_exact fsub_r_exact fmul_r_exact fdiv_r_exact

lemma daysSince_r_exact: "daysSince_r Fin e t = daysSince e t"
  by (simp add: daysSince_r_def Hours_r_def daysSince_def Let_def hour_ns_def exact_arith
      field_simps)

lemma CheckRebalanceNeeded_r_exact: "CheckRebalanceNeeded_r Fin e h = CheckRebalanceNeeded e h"
  by (simp add: exact_arith daysSince_r_exact CheckRebalanceNeeded_r_def
      CheckRebalanceNeeded_def SILVER_ALLOCATION_r_def PLATINUM_ALLOCATION_r_def
      MAX_DEVIATION_PERCENT_r_def SILVER_ALLOCATION_def
      PLATINUM_ALLOCATION_def MAX_DEVIATION_PERCENT_def Let_def cong: option.case_cong)

lemma UpdateBasketHoldings_r_exact:
  "UpdateBasketHoldings_r Fin e st m g s p isMint = UpdateBasketHoldings e st m g s p isMint"
  by (simp add: exact_arith UpdateBasketHoldings_r_def UpdateBasketHoldings_def
      CheckRebalanceNeeded_r_exact Let_def)

lemma MintMBT_r_exact: "MintMBT_r Fin e st owner amount userID = MintMBT e st owner amount userID"
  by (simp add: exact_arith MintMBT_r_def MintMBT_def UpdateBasketHoldings_r_exact
      SILVER_ALLOCATION_r_def
      PLATINUM_ALLOCATION_r_def SILVER_ALLOCATION_def PLATINUM_ALLOCATION_def Let_def
      cong: option.case_cong)

lemma RedeemMBT_r_exact:
  "RedeemMBT_r Fin e st tokenID amount userID = RedeemMBT e st tokenID amount userID"
  by (simp add: exact_arith RedeemMBT_r_def RedeemMBT_def UpdateBasketHoldings_r_exact Let_def
      cong: option.case_cong if_cong)

lemma RebalanceBasket_r_exact: "RebalanceBasket_r Fin e st = RebalanceBasket e st"
  by (simp add: exact_arith RebalanceBasket_r_def RebalanceBasket_def SILVER_ALLOCATION_r_def
      PLATINUM_ALLOCATION_r_def SILVER_ALLOCATION_def PLATINUM_ALLOCATION_def Let_def
      cong: option.case_cong)

lemma maxTradeAmount_scan_r_exact:
  "maxTradeAmount_scan_r Fin totalValue ds m = maxTradeAmount_scan totalValue ds m"
  by (induction ds arbitrary: m) (auto simp add: Let_def exact_arith)

lemma generate_scan_r_exact:
  "generate_scan_r Fin e pol requestID totalValue ds ops
     = generate_scan e pol requestID totalValue ds ops"
proof (induction ds arbitrary: ops)
  case Nil
  then show ?case by simp
next
  case (Cons d ds)
  obtain metal deviation where d: "d = (metal, deviation)" by (cases d)
  show ?case using Cons.IH by (simp add: d Let_def exact_arith)
qed

lemma EvaluateRebalanceNeed_r_exact:
  "EvaluateRebalanceNeed_r Fin gh e st = EvaluateRebalanceNeed gh e st"
  by (simp add: exact_arith daysSince_r_exact EvaluateRebalanceNeed_r_def EvaluateRebalanceNeed_def
      CreateRebalanceRequest_r_def CreateRebalanceRequest_def
      GenerateRebalanceOperations_r_def GenerateRebalanceOperations_def
      generate_scan_r_exact maxTradeAmount_scan_r_exact
      eval_trigger_r_def eval_trigger_def eval_time_gate_r_def eval_time_gate_def
      eval_daysSinceRebalance_r_def eval_daysSinceRebalance_def
      eval_deviations_r_def eval_deviations_def eval_currentAlloc_r_def eval_currentAlloc_def
      holdingsTotal_r_def holdingsTotal_def Let_def cong: option.case_cong if_cong)


section \<open>Facts about the concrete states\<close>

lemma minted_1000_result:
  "MintMBT nov3 empty_basket ''alice'' (Fin 1000) ''alice'' = (minted_1000, None)"
  by (simp add: minted_1000_def prod_eq_iff basket_defs empty_basket_def)

lemma minted_1000_token: "tokens minted_1000 (mintTokenID nov3) = Some alice_token"
  by (simp add: minted_1000_def basket_defs empty_basket_def alice_token_def nov3_def
      sample_env_def)

lemma minted_1000_amounts:
  "holdings_amounts (GetBasketHoldings e minted_1000) = (Fin 1000, Fin 500, Fin 300, Fin 200)"
  by (simp add: minted_1000_def basket_defs holdings_amounts_def empty_basket_def)

lemma empty_basket_amounts:
  "holdings_amounts (GetBasketHoldings e empty_basket) = (Fin 0, Fin 0, Fin 0, Fin 0)"
  by (simp add: GetBasketHoldings_def holdings_amounts_def empty_basket_def)

lemma Mock_maxDeviation: "eval_maxDeviation default_policy (MockBasketHoldings e) = Fin 0"
  by (simp add: eval_maxDeviation_def eval_deviations_def eval_currentAlloc_def
      eval_targetAlloc_def MockBasketHoldings_def default_policy_def holdingsTotal_def
      lookup0_def Let_def)

lemma Mock_days: "eval_daysSinceRebalance dec8 (MockBasketHoldings dec8) = Fin 35"
  by (simp add: eval_daysSinceRebalance_def eval_lastRebalance_def MockBasketHoldings_def
      dec8_def sample_env_def daysSince_def hour_ns_def)

lemma undated_trigger:
  "eval_trigger dec8 default_policy undated_holdings
     = (Fin 0.02, ''DEVIATION'', DeviationIn ''gold'' (Fin 0.02))"
  by (simp add: eval_trigger_def eval_time_gate_def eval_daysSinceRebalance_def
      eval_lastRebalance_def daysSince_def hour_ns_def
      eval_deviations_def eval_currentAlloc_def
      eval_targetAlloc_def holdingsTotal_def lookup0_def Let_def undated_holdings_def
      default_policy_def dec8_def sample_env_def)

lemma drifted_deviations:
  "eval_deviations default_policy (DriftedHoldings e) =
     [(''gold'', Fin 0.1), (''silver'', Fin (- 0.05)), (''platinum'', Fin (- 0.05))]"
  by (simp add: eval_deviations_def eval_currentAlloc_def
      eval_targetAlloc_def holdingsTotal_def lookup0_def Let_def DriftedHoldings_def
      default_policy_def)

lemma drifted_scan:
  "deviation_scan (eval_deviations default_policy (DriftedHoldings e)) (Fin 0.0, [], NoReason)
     = (Fin 0.1, ''DEVIATION'', DeviationIn ''gold'' (Fin 0.1))"
  unfolding drifted_deviations by (simp add: Let_def)

lemma drifted_maxDeviation: "eval_maxDeviation default_policy (DriftedHoldings e) = Fin 0.1"
  unfolding eval_maxDeviation_def drifted_scan by simp

lemma drifted_trigger:
  "eval_trigger dec8 default_policy (DriftedHoldings dec8)
     = (Fin 0.1, ''DEVIATION'', DeviationIn ''gold'' (Fin 0.1))"
  unfolding eval_trigger_def drifted_scan
  by (simp add: eval_time_gate_def default_policy_def Let_def)

lemma drifted_request:
  "\<exists>r. requests drifted_evaluated drifted_requestID = Some r \<and>
        Status r = ''PENDING'' \<and> \<not> ApprovalRequired r \<and> RequestType r = ''DEVIATION'' \<and>
        Deviations r = [(''gold'', Fin 0.1), (''silver'', Fin (- 0.05)), (''platinum'', Fin (- 0.05))] \<and>
        marshal_request_ok r"
proof -
  have fin: "holdings_amounts (DriftedHoldings dec8) = (Fin 10000, Fin 6000, Fin 2500, Fin 1500)"
      "GoldAllocation default_policy = Fin 0.5" "SilverAllocation default_policy = Fin 0.3"
      "PlatinumAllocation default_policy = Fin 0.2"
    by (simp_all add: DriftedHoldings_def holdings_amounts_def default_policy_def)
  have ev: "drifted_evaluated =
      fst (CreateRebalanceRequest DriftedHoldings dec8 initialized
             (eval_currentAlloc (DriftedHoldings dec8)) (eval_targetAlloc default_policy)
             (eval_deviations default_policy (DriftedHoldings dec8)) ''DEVIATION''
             (DeviationIn ''gold'' (Fin 0.1)))"
    by (simp add: drifted_evaluated_def EvaluateRebalanceNeed_def Let_def policy_initialized
        drifted_trigger)
       (simp add: DriftedHoldings_def holdingsTotal_def default_policy_def)
  have mt: "maxTradeAmount_scan (holdingsTotal (DriftedHoldings dec8))
              (eval_deviations default_policy (DriftedHoldings dec8)) (Fin 0.0) = Fin 1000"
    unfolding drifted_deviations by (simp add: DriftedHoldings_def holdingsTotal_def Let_def)
  obtain ops where g: "generate_scan dec8 default_policy (''REBAL-'' @ dec_int (now dec8))
        (holdingsTotal (DriftedHoldings dec8))
        (eval_deviations default_policy (DriftedHoldings dec8)) (operations initialized)
          = (ops, None)"
    using generate_scan_ok[OF eval_maps_finite(1)[OF fin(1) _ fin(2-4)]
        eval_maps_finite(4)[OF fin(1) _ fin(2-4)], of dec8 default_policy
        "''REBAL-'' @ dec_int (now dec8)" "operations initialized"]
    by (cases "generate_scan dec8 default_policy (''REBAL-'' @ dec_int (now dec8))
        (holdingsTotal (DriftedHoldings dec8))
        (eval_deviations default_policy (DriftedHoldings dec8)) (operations initialized)") simp
  have mr: "list_all (\<lambda>kv. is_finite (snd kv)) (eval_currentAlloc (DriftedHoldings dec8))"
      "list_all (\<lambda>kv. is_finite (snd kv)) (eval_targetAlloc default_policy)"
      "list_all (\<lambda>kv. is_finite (snd kv)) (eval_deviations default_policy (DriftedHoldings dec8))"
    using eval_maps_finite(2-4)[OF fin(1) _ fin(2-4)] by simp_all
  have "ApprovalThreshold default_policy = Fin 100000" by (simp add: default_policy_def)
  then show ?thesis
    unfolding ev drifted_requestID_def
    using g mr mt
    by (simp add: CreateRebalanceRequest_def GenerateRebalanceOperations_def Let_def
        policy_initialized marshal_request_ok_def on_error_discard_def drifted_deviations)
qed



lemma cents_minted_result:
  "snd (MintMBT_r to_cents nov3 empty_basket ''alice'' (Fin 0.05) ''alice'') = None"
  by (simp add: basket_r_defs empty_basket_def to_cents_def GOLD_ALLOCATION_def
      SILVER_ALLOCATION_r_def PLATINUM_ALLOCATION_r_def)





section \<open>The claims\<close>

text \<open>
  C1. The claim: when \<^verbatim>\<open>ExecuteRebalance\<close> completes with every operation succeeding, the
  executor sets each constituent total to (sum of the totals) times its target fraction.
  The code does not: \<^verbatim>\<open>UpdateBasketAfterRebalance\<close> adds deviation times total to each
  constituent, the deviation being current fraction minus target fraction, so the holdings
  move away from the target. With holdings of 6000/2500/1500 and the default policy, the
  evaluator stores a PENDING request with deviations +0.10/-0.05/-0.05 that needs no approval;
  executing it marks the request EXECUTED and writes holdings of 7000/2000/1000, where the
  target allocation is 5000/3000/2000. With the stand-in holdings of the source, which are
  on target at 5000/3000/2000, executing an APPROVED request with the same deviations writes
  holdings of 6000/2500/1500.
\<close>

theorem ExecuteRebalance_moves_away_from_target:
  "(\<exists>r. requests drifted_evaluated drifted_requestID = Some r \<and>
        Status r = ''PENDING'' \<and> ApprovalRequired r = False \<and>
        Deviations r = eval_deviations default_policy (DriftedHoldings dec8)) \<and>
   snd (ExecuteRebalance DriftedHoldings dec8 drifted_evaluated drifted_requestID) = None \<and>
   (\<exists>r. requests drifted_executed drifted_requestID = Some r \<and> Status r = ''EXECUTED'') \<and>
   holdings_amounts (DriftedHoldings dec8) = (Fin 10000, Fin 6000, Fin 2500, Fin 1500) \<and>
   fmul (holdingsTotal (DriftedHoldings dec8)) (GoldAllocation default_policy) = Fin 5000 \<and>
   fmul (holdingsTotal (DriftedHoldings dec8)) (SilverAllocation default_policy) = Fin 3000 \<and>
   fmul (holdingsTotal (DriftedHoldings dec8)) (PlatinumAllocation default_policy) = Fin 2000 \<and>
   written_holdings drifted_executed =
     Some \<lparr>TotalMBTSupply = Fin 10000, TotalBGTValue = Fin 7000, TotalBSTValue = Fin 2000,
           TotalBPTValue = Fin 1000, RebalanceNeeded = False,
           LastRebalance = ''2026-12-08T00:00:00Z''\<rparr> \<and>
   holdings_amounts (MockBasketHoldings dec8) = (Fin 10000, Fin 5000, Fin 3000, Fin 2000) \<and>
   snd (ExecuteRebalance MockBasketHoldings dec8 (with_request (sample_request ''APPROVED'' True))
          ''REBAL-1'') = None \<and>
   written_holdings
     (fst (ExecuteRebalance MockBasketHoldings dec8 (with_request (sample_request ''APPROVED'' True))
             ''REBAL-1'')) =
     Some \<lparr>TotalMBTSupply = Fin 10000, TotalBGTValue = Fin 6000, TotalBSTValue = Fin 2500,
           TotalBPTValue = Fin 1500, RebalanceNeeded = False,
           LastRebalance = ''2026-12-08T00:00:00Z''\<rparr>"
proof -
  obtain r where r: "requests drifted_evaluated drifted_requestID = Some r"
      "Status r = ''PENDING''" "\<not> ApprovalRequired r"
      "Deviations r =
         [(''gold'', Fin 0.1), (''silver'', Fin (- 0.05)), (''platinum'', Fin (- 0.05))]"
      "marshal_request_ok r"
    using drifted_request by blast
  let ?upd = "fst (UpdateBasketAfterRebalance DriftedHoldings dec8 drifted_evaluated
                     (Deviations r))"
  have ex: "ExecuteRebalance DriftedHoldings dec8 drifted_evaluated drifted_requestID
     = (?upd\<lparr>requests := (requests ?upd)
             (drifted_requestID \<mapsto>
                r\<lparr>Status := ''EXECUTED'', ExecutedAt := formatRFC3339 dec8 (now dec8)\<rparr>)\<rparr>,
        None)"
    using r by (simp add: ExecuteRebalance_def execute_scan_never_fails Let_def
        marshal_request_ok_def)
  have wh: "written_holdings ?upd =
     Some \<lparr>TotalMBTSupply = Fin 10000, TotalBGTValue = Fin 7000, TotalBSTValue = Fin 2000,
           TotalBPTValue = Fin 1000, RebalanceNeeded = False,
           LastRebalance = ''2026-12-08T00:00:00Z''\<rparr>"
    by (simp add: UpdateBasketAfterRebalance_def r(4) Let_def DriftedHoldings_def
        holdingsTotal_def lookup0_def dec8_def sample_env_def marshal_holdings_ok_def)
  have tg: "holdings_amounts (DriftedHoldings dec8) = (Fin 10000, Fin 6000, Fin 2500, Fin 1500) \<and>
   fmul (holdingsTotal (DriftedHoldings dec8)) (GoldAllocation default_policy) = Fin 5000 \<and>
   fmul (holdingsTotal (DriftedHoldings dec8)) (SilverAllocation default_policy) = Fin 3000 \<and>
   fmul (holdingsTotal (DriftedHoldings dec8)) (PlatinumAllocation default_policy) = Fin 2000"
    by (simp add: DriftedHoldings_def holdingsTotal_def default_policy_def holdings_amounts_def)
  have mock: "holdings_amounts (MockBasketHoldings dec8) = (Fin 10000, Fin 5000, Fin 3000, Fin 2000) \<and>
   snd (ExecuteRebalance MockBasketHoldings dec8 (with_request (sample_request ''APPROVED'' True))
          ''REBAL-1'') = None \<and>
   written_holdings
     (fst (ExecuteRebalance MockBasketHoldings dec8 (with_request (sample_request ''APPROVED'' True))
             ''REBAL-1'')) =
     Some \<lparr>TotalMBTSupply = Fin 10000, TotalBGTValue = Fin 6000, TotalBSTValue = Fin 2500,
           TotalBPTValue = Fin 1500, RebalanceNeeded = False,
           LastRebalance = ''2026-12-08T00:00:00Z''\<rparr>"
    by (simp add: ExecuteRebalance_def execute_scan_never_fails Let_def with_request_def
        sample_request_def marshal_request_ok_def UpdateBasketAfterRebalance_def
        MockBasketHoldings_def holdingsTotal_def holdings_amounts_def lookup0_def
        marshal_holdings_ok_def dec8_def sample_env_def)
  show ?thesis
    using r tg wh mock by (simp add: drifted_executed_def ex drifted_deviations)
qed

text \<open>
  C2. The claim: \<^verbatim>\<open>Mint\<close> with a total amount of zero or less fails with InvalidAmount,
  creates no token and leaves the holdings as they were. \<^verbatim>\<open>MintMBT\<close> has no such check:
  minting -100 into the empty state returns no error, stores a token and brings the supply
  from 0 to -100 and the gold total to -50.
\<close>

theorem MintMBT_negative_amount_succeeds:
  "snd (MintMBT nov3 empty_basket ''alice'' (Fin (- 100)) ''alice'') = None \<and>
   tokens minted_negative (mintTokenID nov3) \<noteq> None \<and>
   holdings_amounts (GetBasketHoldings nov3 empty_basket) = (Fin 0, Fin 0, Fin 0, Fin 0) \<and>
   holdings_amounts (GetBasketHoldings nov3 minted_negative)
     = (Fin (- 100), Fin (- 50), Fin (- 30), Fin (- 20))"
  by (simp add: minted_negative_def basket_defs empty_basket_def holdings_amounts_def)

text \<open>
  C2, as the code has it, in exact arithmetic: the only guard of \<^verbatim>\<open>MintMBT\<close> on a finite
  amount is the comparison with the simulated balance of 1,000,000. With finite holdings, an
  amount above the balance is refused with the insufficient-balance error and the state is as
  before; every other finite amount, whatever its sign, is accepted: the call returns no
  error, stores under the new token id a token of that owner with that total value and the
  50/30/20 amounts, and adds the amount and its three parts to the aggregate holdings.
\<close>

theorem MintMBT_amount_guard:
  assumes "holdings_amounts (GetBasketHoldings e st) = (Fin S, Fin b, Fin s, Fin p)"
  shows "(1000000 < a \<longrightarrow>
            MintMBT e st owner (Fin a) userID = (st, Some InsufficientBalance)) \<and>
         (a \<le> 1000000 \<longrightarrow>
            snd (MintMBT e st owner (Fin a) userID) = None \<and>
            (\<exists>t. tokens (fst (MintMBT e st owner (Fin a) userID)) (mintTokenID e) = Some t \<and>
                 Owner t = owner \<and> TotalValue t = Fin a \<and> BGTAmount t = Fin (a * 0.5) \<and>
                 BSTAmount t = Fin (a * 0.3) \<and> BPTAmount t = Fin (a * 0.2)) \<and>
            holdings_amounts (GetBasketHoldings e (fst (MintMBT e st owner (Fin a) userID))) =
              (Fin (S + a), Fin (b + a * 0.5), Fin (s + a * 0.3), Fin (p + a * 0.2)))"
  using assms by (auto simp add: basket_defs holdings_amounts_def)

theorem MintMBT_amount_guard_witness:
  "holdings_amounts (GetBasketHoldings nov3 empty_basket) = (Fin 0, Fin 0, Fin 0, Fin 0) \<and>
   MintMBT nov3 empty_basket ''alice'' (Fin 2000000) ''alice''
     = (empty_basket, Some InsufficientBalance) \<and>
   snd (MintMBT nov3 empty_basket ''alice'' (Fin (- 100)) ''alice'') = None \<and>
   holdings_amounts (GetBasketHoldings nov3
      (fst (MintMBT nov3 empty_basket ''alice'' (Fin (- 100)) ''alice'')))
     = (Fin (- 100), Fin (- 50), Fin (- 30), Fin (- 20))"
  using MintMBT_amount_guard [OF empty_basket_amounts [of nov3], of 2000000 "''alice''" "''alice''"]
    MintMBT_amount_guard [OF empty_basket_amounts [of nov3], of "- 100" "''alice''" "''alice''"]
    empty_basket_amounts [of nov3]
  by simp




text \<open>
  C4. When the schedule is overdue (the days since the last rebalance are at least the
  policy's interval) and the largest absolute deviation is below the policy's threshold,
  \<^verbatim>\<open>EvaluateRebalanceNeed\<close> returns without an error and leaves the state as it was: no
  request and no operation is stored.
\<close>

theorem EvaluateRebalanceNeed_overdue_below_threshold:
  assumes "policy st = Some pol"
      and "fge (eval_daysSinceRebalance e (gh e)) (Fin (real_of_int (RebalanceIntervalDays pol)))"
      and "flt (eval_maxDeviation pol (gh e)) (MaxDeviationPercent pol)"
  shows "EvaluateRebalanceNeed gh e st = (st, None)"
proof -
  have "\<not> fge (fst (eval_trigger e pol (gh e))) (MaxDeviationPercent pol)"
    using assms(3) by (simp add: eval_trigger_fst flt_not_fge)
  then show ?thesis
    by (auto simp add: EvaluateRebalanceNeed_def Let_def assms(1) split: prod.splits)
qed

theorem EvaluateRebalanceNeed_overdue_below_threshold_witness:
  "policy initialized = Some default_policy \<and>
   fge (eval_daysSinceRebalance dec8 (MockBasketHoldings dec8))
       (Fin (real_of_int (RebalanceIntervalDays default_policy))) \<and>
   flt (eval_maxDeviation default_policy (MockBasketHoldings dec8))
       (MaxDeviationPercent default_policy) \<and>
   EvaluateRebalanceNeed MockBasketHoldings dec8 initialized = (initialized, None)"
proof -
  have a: "fge (eval_daysSinceRebalance dec8 (MockBasketHoldings dec8))
       (Fin (real_of_int (RebalanceIntervalDays default_policy)))"
    unfolding Mock_days by (simp add: default_policy_def)
  have b: "flt (eval_maxDeviation default_policy (MockBasketHoldings dec8))
       (MaxDeviationPercent default_policy)"
    unfolding Mock_maxDeviation by (simp add: default_policy_def)
  show ?thesis
    using EvaluateRebalanceNeed_overdue_below_threshold
      [where gh = MockBasketHoldings and e = dec8 and st = initialized
         and pol = default_policy, OF policy_initialized a b] a b policy_initialized
    by simp
qed





text \<open>
  C6. The claim: after a successful \<^verbatim>\<open>MintMBT\<close> of an amount, an immediate \<^verbatim>\<open>RedeemMBT\<close> of
  that same amount from the minted token by its owner leaves the holdings as they were
  before the mint, and the token record no longer exists. \<^verbatim>\<open>MintMBT\<close> of the amount 0
  succeeds, and the redeem of 0 from the minted token fails: it divides 0 by 0, and
  \<^verbatim>\<open>json.Marshal\<close> refuses the holdings with the amounts that are not numbers. The token
  record stays.
\<close>

theorem full_redeem_of_zero_mint_fails:
  "snd (MintMBT nov3 empty_basket ''alice'' (Fin 0) ''alice'') = None \<and>
   tokens minted_zero (mintTokenID nov3) \<noteq> None \<and>
   RedeemMBT dec8 minted_zero (mintTokenID nov3) (Fin 0) ''alice''
     = (minted_zero, Some MarshalFailed) \<and>
   tokens (fst (RedeemMBT dec8 minted_zero (mintTokenID nov3) (Fin 0) ''alice''))
     (mintTokenID nov3) \<noteq> None"
  by (simp add: minted_zero_def basket_defs empty_basket_def)

text \<open>
  C6, as the code has it, for an amount other than zero. When \<^verbatim>\<open>MintMBT\<close> of the amount
  succeeds, the \<^verbatim>\<open>RedeemMBT\<close> of that same amount from the minted token by its owner
  succeeds, at any later clock reading; after it the token record no longer exists and the
  four amounts of the aggregate holdings are those from before the mint (in exact
  arithmetic; the flag and the timestamp of the holdings are recomputed).
\<close>

theorem mint_then_full_redeem:
  assumes "MintMBT e1 st owner amount userID = (st1, None)"
      and "\<not> feq amount (Fin 0)"
  shows "snd (RedeemMBT e2 st1 (mintTokenID e1) amount owner) = None \<and>
         tokens (fst (RedeemMBT e2 st1 (mintTokenID e1) amount owner)) (mintTokenID e1) = None \<and>
         holdings_amounts
           (GetBasketHoldings e3 (fst (RedeemMBT e2 st1 (mintTokenID e1) amount owner)))
           = holdings_amounts (GetBasketHoldings e0 st)"
proof -
  obtain a where a: "amount = Fin a"
    using assms(1) by (cases amount) (simp_all add: basket_defs)
  have nz: "a \<noteq> 0" using assms(2) a by simp
  have nf: "\<not> 1000000 < a"
    using assms(1) by (auto simp add: a MintMBT_def GetUserBalance_def Let_def split: if_splits)
  have st1: "st1 = fst (MintMBT e1 st owner (Fin a) userID)"
    using assms(1) by (simp add: a)
  have "marshal_holdings_ok (GetBasketHoldings e1 st)"
    using assms(1) by (intro MintMBT_success_holdings[of e1 st owner a userID]) (simp add: a)
  then obtain S b s p where
    h: "holdings_amounts (GetBasketHoldings e1 st) = (Fin S, Fin b, Fin s, Fin p)"
    by (auto simp add: marshal_holdings_ok_def holdings_amounts_def is_finite_iff)
  have h0: "holdings_amounts (GetBasketHoldings e0 st) = (Fin S, Fin b, Fin s, Fin p)"
    using h by (simp add: GetBasketHoldings_def holdings_amounts_def split: option.splits)
  have "snd (RedeemMBT e2 st1 (mintTokenID e1) (Fin a) owner) = None \<and>
        tokens (fst (RedeemMBT e2 st1 (mintTokenID e1) (Fin a) owner)) (mintTokenID e1) = None \<and>
        holdings_amounts
          (GetBasketHoldings e3 (fst (RedeemMBT e2 st1 (mintTokenID e1) (Fin a) owner)))
          = (Fin S, Fin b, Fin s, Fin p)"
    unfolding st1 using nf nz h
    by (simp add: basket_defs holdings_amounts_def split: option.splits)
  with h0 a show ?thesis by simp
qed

theorem mint_then_full_redeem_witness:
  "MintMBT nov3 empty_basket ''alice'' (Fin 1000) ''alice'' = (minted_1000, None) \<and>
   \<not> feq (Fin 1000) (Fin 0) \<and>
   snd (RedeemMBT dec8 minted_1000 (mintTokenID nov3) (Fin 1000) ''alice'') = None \<and>
   tokens (fst (RedeemMBT dec8 minted_1000 (mintTokenID nov3) (Fin 1000) ''alice''))
     (mintTokenID nov3) = None \<and>
   holdings_amounts (GetBasketHoldings dec8
      (fst (RedeemMBT dec8 minted_1000 (mintTokenID nov3) (Fin 1000) ''alice'')))
     = (Fin 0, Fin 0, Fin 0, Fin 0)"
proof -
  have nz: "\<not> feq (Fin 1000) (Fin 0)" by simp
  show ?thesis
    using mint_then_full_redeem [OF minted_1000_result nz, of dec8 dec8 nov3]
      minted_1000_result empty_basket_amounts [of nov3]
    by simp
qed

text \<open>
  C7. The claim: a missing or unparsable timestamp of the last rebalance counts as overdue in
  every code path that performs the time gate. \<^verbatim>\<open>EvaluateRebalanceNeed\<close> replaces such a
  timestamp by the instant 24 hours ago ("Assume recent rebalance"): for holdings at 52/29/19
  whose timestamp does not parse, with the default policy (interval 30 days, threshold 0.05),
  the deviation is below the threshold, the schedule is not overdue, and the trigger type is
  not TIME.
\<close>

theorem EvaluateRebalanceNeed_unparsable_not_overdue:
  "parseRFC3339 dec8 (LastRebalance undated_holdings) = None \<and>
   flt (eval_maxDeviation default_policy undated_holdings) (MaxDeviationPercent default_policy) \<and>
   eval_daysSinceRebalance dec8 undated_holdings = Fin 1 \<and>
   \<not> fge (eval_daysSinceRebalance dec8 undated_holdings)
          (Fin (real_of_int (RebalanceIntervalDays default_policy))) \<and>
   fst (snd (eval_trigger dec8 default_policy undated_holdings)) \<noteq> ''TIME''"
proof -
  have d: "eval_daysSinceRebalance dec8 undated_holdings = Fin 1"
    by (simp add: eval_daysSinceRebalance_def eval_lastRebalance_def daysSince_def hour_ns_def
        undated_holdings_def dec8_def sample_env_def)
  have m: "eval_maxDeviation default_policy undated_holdings = Fin 0.02"
    using eval_trigger_fst[of dec8 default_policy undated_holdings]
    by (simp add: undated_trigger)
  have p: "parseRFC3339 dec8 (LastRebalance undated_holdings) = None"
    by (simp add: undated_holdings_def dec8_def sample_env_def)
  have "flt (eval_maxDeviation default_policy undated_holdings)
            (MaxDeviationPercent default_policy)"
    unfolding m by (simp add: default_policy_def)
  moreover have "\<not> fge (eval_daysSinceRebalance dec8 undated_holdings)
          (Fin (real_of_int (RebalanceIntervalDays default_policy)))"
    unfolding d by (simp add: default_policy_def)
  moreover have "fst (snd (eval_trigger dec8 default_policy undated_holdings)) \<noteq> ''TIME''"
    by (simp add: undated_trigger)
  ultimately show ?thesis using d p by blast
qed

text \<open>
  C7, as the code has it, for a timestamp that does not parse. \<^verbatim>\<open>CheckRebalanceNeeded\<close>,
  when the supply and the total are not zero, returns true (it is fail-safe toward
  rebalancing). \<^verbatim>\<open>EvaluateRebalanceNeed\<close> takes the last rebalance to be 24 hours ago: the
  days since the last rebalance are 1, so its time gate is open only for a policy whose
  interval is at most one day.
\<close>

theorem unparsable_timestamp_gate:
  assumes "parseRFC3339 e (LastRebalance h) = None"
  shows "(\<not> feq (TotalMBTSupply h) (Fin 0) \<and> \<not> feq (holdingsTotal h) (Fin 0)
            \<longrightarrow> CheckRebalanceNeeded e h = True) \<and>
         eval_daysSinceRebalance e h = Fin 1 \<and>
         (fge (eval_daysSinceRebalance e h) (Fin (real_of_int (RebalanceIntervalDays pol)))
            = (RebalanceIntervalDays pol \<le> 1))"
proof -
  have d: "eval_daysSinceRebalance e h = Fin 1"
    by (simp add: eval_daysSinceRebalance_def eval_lastRebalance_def assms daysSince_def
        hour_ns_def)
  have "\<not> feq (TotalMBTSupply h) (Fin 0) \<and> \<not> feq (holdingsTotal h) (Fin 0)
            \<longrightarrow> CheckRebalanceNeeded e h = True"
    by (simp add: CheckRebalanceNeeded_def holdingsTotal_def Let_def assms)
  with d show ?thesis by simp
qed

theorem unparsable_timestamp_gate_witness:
  "parseRFC3339 dec8 (LastRebalance undated_holdings) = None \<and>
   \<not> feq (TotalMBTSupply undated_holdings) (Fin 0) \<and>
   \<not> feq (holdingsTotal undated_holdings) (Fin 0) \<and>
   CheckRebalanceNeeded dec8 undated_holdings \<and>
   eval_daysSinceRebalance dec8 undated_holdings = Fin 1 \<and>
   \<not> fge (eval_daysSinceRebalance dec8 undated_holdings)
          (Fin (real_of_int (RebalanceIntervalDays default_policy)))"
proof -
  have p: "parseRFC3339 dec8 (LastRebalance undated_holdings) = None"
    by (simp add: undated_holdings_def dec8_def sample_env_def)
  have n: "\<not> feq (TotalMBTSupply undated_holdings) (Fin 0) \<and>
           \<not> feq (holdingsTotal undated_holdings) (Fin 0)"
    by (simp add: undated_holdings_def holdingsTotal_def)
  have i: "\<not> RebalanceIntervalDays default_policy \<le> 1"
    by (simp add: default_policy_def)
  show ?thesis
    using unparsable_timestamp_gate [OF p, of default_policy] p n i by simp
qed


text \<open>
  C8. For every state and every price table, \<^verbatim>\<open>CalculateMBTNAV\<close> returns no error; when the
  supply of the holdings is zero (which includes the state with no holdings record) it
  returns 0, and the division is not reached; when the supply is not zero it returns the sum
  of the three constituent totals times their prices, divided by the supply, which for
  finite totals and prices is that quotient of real numbers.
\<close>

theorem CalculateMBTNAV_value:
  "snd (CalculateMBTNAV_with prices e st) = None \<and>
   (feq (TotalMBTSupply (GetBasketHoldings e st)) (Fin 0)
      \<longrightarrow> fst (CalculateMBTNAV_with prices e st) = Fin 0) \<and>
   (basket_holdings st = None \<longrightarrow> fst (CalculateMBTNAV_with prices e st) = Fin 0) \<and>
   (\<not> feq (TotalMBTSupply (GetBasketHoldings e st)) (Fin 0)
      \<longrightarrow> fst (CalculateMBTNAV_with prices e st) =
            fdiv (fadd (fadd (fmul (TotalBGTValue (GetBasketHoldings e st)) (lookup0 prices ''BGT''))
                             (fmul (TotalBSTValue (GetBasketHoldings e st)) (lookup0 prices ''BST'')))
                       (fmul (TotalBPTValue (GetBasketHoldings e st)) (lookup0 prices ''BPT'')))
                 (TotalMBTSupply (GetBasketHoldings e st))) \<and>
   (\<forall>S b s p pg ps pp.
      holdings_amounts (GetBasketHoldings e st) = (Fin S, Fin b, Fin s, Fin p) \<and> S \<noteq> 0 \<and>
      lookup0 prices ''BGT'' = Fin pg \<and> lookup0 prices ''BST'' = Fin ps \<and>
      lookup0 prices ''BPT'' = Fin pp
      \<longrightarrow> fst (CalculateMBTNAV_with prices e st) = Fin ((b * pg + s * ps + p * pp) / S))"
proof -
  have fin: "fst (CalculateMBTNAV_with prices e st) = Fin ((b * pg + s * ps + p * pp) / S)"
    if "holdings_amounts (GetBasketHoldings e st) = (Fin S, Fin b, Fin s, Fin p)" and "S \<noteq> 0"
      and "lookup0 prices ''BGT'' = Fin pg" and "lookup0 prices ''BST'' = Fin ps"
      and "lookup0 prices ''BPT'' = Fin pp"
    for S b s p pg ps pp
    using that by (simp add: CalculateMBTNAV_with_def Let_def holdings_amounts_def)
  have "basket_holdings st = None \<longrightarrow> fst (CalculateMBTNAV_with prices e st) = Fin 0"
    by (simp add: CalculateMBTNAV_with_def Let_def GetBasketHoldings_def)
  moreover have "snd (CalculateMBTNAV_with prices e st) = None"
    by (simp add: CalculateMBTNAV_with_def Let_def)
  moreover have "feq (TotalMBTSupply (GetBasketHoldings e st)) (Fin 0)
      \<longrightarrow> fst (CalculateMBTNAV_with prices e st) = Fin 0"
    by (simp add: CalculateMBTNAV_with_def Let_def)
  moreover have "\<not> feq (TotalMBTSupply (GetBasketHoldings e st)) (Fin 0)
      \<longrightarrow> fst (CalculateMBTNAV_with prices e st) =
            fdiv (fadd (fadd (fmul (TotalBGTValue (GetBasketHoldings e st)) (lookup0 prices ''BGT''))
                             (fmul (TotalBSTValue (GetBasketHoldings e st)) (lookup0 prices ''BST'')))
                       (fmul (TotalBPTValue (GetBasketHoldings e st)) (lookup0 prices ''BPT'')))
                 (TotalMBTSupply (GetBasketHoldings e st))"
    by (simp add: CalculateMBTNAV_with_def Let_def)
  ultimately show ?thesis using fin by blast
qed

theorem CalculateMBTNAV_value_witness:
  "feq (TotalMBTSupply (GetBasketHoldings nov3 empty_basket)) (Fin 0) \<and>
   basket_holdings empty_basket = None \<and>
   CalculateMBTNAV nov3 empty_basket = (Fin 0, None) \<and>
   \<not> feq (TotalMBTSupply (GetBasketHoldings nov3 minted_1000)) (Fin 0) \<and>
   CalculateMBTNAV nov3 minted_1000 = (Fin 3562.5, None)"
proof -
  have z: "feq (TotalMBTSupply (GetBasketHoldings nov3 empty_basket)) (Fin 0)"
    using empty_basket_amounts [of nov3] by (simp add: holdings_amounts_def)
  have n: "basket_holdings empty_basket = None"
    by (simp add: empty_basket_def)
  have a: "TotalMBTSupply (GetBasketHoldings nov3 minted_1000) = Fin 1000 \<and>
           TotalBGTValue (GetBasketHoldings nov3 minted_1000) = Fin 500 \<and>
           TotalBSTValue (GetBasketHoldings nov3 minted_1000) = Fin 300 \<and>
           TotalBPTValue (GetBasketHoldings nov3 minted_1000) = Fin 200"
    using minted_1000_amounts [of nov3] by (simp add: holdings_amounts_def)
  have p: "lookup0 GetMBTPrices ''BGT'' = Fin 5800 \<and> lookup0 GetMBTPrices ''BST'' = Fin 75 \<and>
           lookup0 GetMBTPrices ''BPT'' = Fin 3200"
    by (simp add: lookup0_def GetMBTPrices_def)
  show ?thesis
    using CalculateMBTNAV_value [of GetMBTPrices nov3 empty_basket]
      CalculateMBTNAV_value [of GetMBTPrices nov3 minted_1000] z n a p
    by (simp add: CalculateMBTNAV_def prod_eq_iff)
qed

text \<open>
  C9. For a stored request (its numbers are finite, since \<^verbatim>\<open>json.Marshal\<close> encoded it),
  \<^verbatim>\<open>ExecuteRebalance\<close> goes through exactly when the status is APPROVED, or PENDING with no
  approval required: it then returns no error and stores the request as EXECUTED. In every other case, among them PENDING with approval required,
  EXECUTED and FAILED, it returns the not-ready error, and the state (the request, the
  operations and the written holdings) is as it was.
\<close>

theorem ExecuteRebalance_ready_only:
  assumes "requests st requestID = Some r" and "marshal_request_ok r"
  shows "(Status r = ''APPROVED'' \<or> (Status r = ''PENDING'' \<and> \<not> ApprovalRequired r)
          \<longrightarrow> snd (ExecuteRebalance gh e st requestID) = None \<and>
              requests (fst (ExecuteRebalance gh e st requestID)) requestID =
                Some (r\<lparr>Status := ''EXECUTED'', ExecutedAt := formatRFC3339 e (now e)\<rparr>)) \<and>
         (\<not> (Status r = ''APPROVED'' \<or> (Status r = ''PENDING'' \<and> \<not> ApprovalRequired r))
          \<longrightarrow> ExecuteRebalance gh e st requestID = (st, Some NotReady))"
  using assms
  by (auto simp add: ExecuteRebalance_def execute_scan_never_fails Let_def
      marshal_request_ok_def)

theorem ExecuteRebalance_ready_only_witness:
  "ExecuteRebalance MockBasketHoldings dec8 (with_request (sample_request ''PENDING'' True))
     ''REBAL-1'' = (with_request (sample_request ''PENDING'' True), Some NotReady) \<and>
   ExecuteRebalance MockBasketHoldings dec8 (with_request (sample_request ''EXECUTED'' False))
     ''REBAL-1'' = (with_request (sample_request ''EXECUTED'' False), Some NotReady) \<and>
   ExecuteRebalance MockBasketHoldings dec8 (with_request (sample_request ''FAILED'' False))
     ''REBAL-1'' = (with_request (sample_request ''FAILED'' False), Some NotReady) \<and>
   snd (ExecuteRebalance MockBasketHoldings dec8 (with_request (sample_request ''APPROVED'' True))
     ''REBAL-1'') = None \<and>
   snd (ExecuteRebalance MockBasketHoldings dec8 (with_request (sample_request ''PENDING'' False))
     ''REBAL-1'') = None"
proof -
  have stored: "requests (with_request r) ''REBAL-1'' = Some r" for r
    by (simp add: with_request_def)
  have fin: "marshal_request_ok (sample_request s a)" for s a
    by (simp add: marshal_request_ok_def sample_request_def)
  note E = ExecuteRebalance_ready_only [OF stored fin, of _ _ MockBasketHoldings dec8]
  show ?thesis
    using E [of "''PENDING''" True] E [of "''EXECUTED''" False]
      E [of "''FAILED''" False] E [of "''APPROVED''" True]
      E [of "''PENDING''" False]
    by (simp add: sample_request_def)
qed

text \<open>
  C10. \<^verbatim>\<open>RedeemMBT\<close> has no positivity check; its only guard on the amount is
  \<^verbatim>\<open>amount > token.TotalValue\<close>. For a stored token of positive value with positive
  constituent amounts (as every token minted with a positive amount has; the numbers of a
  stored record are finite), its owner and the stored holdings, in exact arithmetic: an amount above the token's value is refused and the state is as it
  was; the amount 0 is accepted and changes none of the token's and the holdings' amounts
  (the token's timestamp is set); a negative amount is accepted and makes the token's value,
  its three constituent amounts and the four amounts of the holdings strictly larger.
\<close>

theorem RedeemMBT_nonpositive_amount:
  assumes "tokens st tokenID = Some t" and "Owner t = userID"
      and "TotalValue t = Fin v" and "0 < v"
      and "BGTAmount t = Fin g" and "BSTAmount t = Fin s" and "BPTAmount t = Fin p"
      and "0 < g" and "0 < s" and "0 < p" and "marshal_token_ok t"
      and "holdings_amounts (GetBasketHoldings e st) = (Fin hs, Fin hg, Fin hv, Fin hp)"
  shows "(v < a \<longrightarrow>
            RedeemMBT e st tokenID (Fin a) userID = (st, Some InsufficientTokenBalance)) \<and>
         (a = 0 \<longrightarrow>
            snd (RedeemMBT e st tokenID (Fin a) userID) = None \<and>
            tokens (fst (RedeemMBT e st tokenID (Fin a) userID)) tokenID =
              Some (t\<lparr>TokenLastRebalance := formatRFC3339 e (now e)\<rparr>) \<and>
            holdings_amounts (GetBasketHoldings e (fst (RedeemMBT e st tokenID (Fin a) userID)))
              = holdings_amounts (GetBasketHoldings e st)) \<and>
         (a < 0 \<longrightarrow>
            snd (RedeemMBT e st tokenID (Fin a) userID) = None \<and>
            (\<exists>t'. tokens (fst (RedeemMBT e st tokenID (Fin a) userID)) tokenID = Some t' \<and>
                  TotalValue t' = Fin (v - a) \<and>
                  flt (TotalValue t) (TotalValue t') \<and> flt (BGTAmount t) (BGTAmount t') \<and>
                  flt (BSTAmount t) (BSTAmount t') \<and> flt (BPTAmount t) (BPTAmount t')) \<and>
            holdings_amounts (GetBasketHoldings e (fst (RedeemMBT e st tokenID (Fin a) userID)))
              = (Fin (hs - a), Fin (hg - g * (a / v)), Fin (hv - s * (a / v)),
                 Fin (hp - p * (a / v))) \<and>
            hs < hs - a \<and> hg < hg - g * (a / v) \<and> hv < hv - s * (a / v) \<and>
            hp < hp - p * (a / v))"
proof -
  let ?R = "RedeemMBT e st tokenID (Fin a) userID"
  have neg: "x * (a / v) < 0" if "a < 0" and "0 < x" for x
    using that \<open>0 < v\<close> by (simp add: mult_pos_neg divide_neg_pos)
  have ok: "snd ?R = None" if "a \<le> v"
    using assms that by (simp add: basket_defs holdings_amounts_def)
  have tok: "tokens (fst ?R) tokenID =
           Some (t\<lparr>TotalValue := Fin (v - a), BGTAmount := Fin (g - g * (a / v)),
                   BSTAmount := Fin (s - s * (a / v)), BPTAmount := Fin (p - p * (a / v)),
                   TokenLastRebalance := formatRFC3339 e (now e)\<rparr>)"
    if "a < v"
    using assms that by (simp add: basket_defs holdings_amounts_def)
  have hold: "holdings_amounts (GetBasketHoldings e (fst ?R)) =
           (Fin (hs - a), Fin (hg - g * (a / v)), Fin (hv - s * (a / v)),
            Fin (hp - p * (a / v)))"
    if "a \<le> v"
    using assms that by (simp add: basket_defs holdings_amounts_def)
  have high: "?R = (st, Some InsufficientTokenBalance)" if "v < a"
    using assms(1-3) that by (simp add: RedeemMBT_def)
  have zero: "tokens (fst ?R) tokenID = Some (t\<lparr>TokenLastRebalance := formatRFC3339 e (now e)\<rparr>) \<and>
      holdings_amounts (GetBasketHoldings e (fst ?R)) = holdings_amounts (GetBasketHoldings e st)"
    if "a = 0"
    using tok hold that assms(3-7,12) \<open>0 < v\<close> by (simp add: MBTToken.equality)
  have less: "(\<exists>t'. tokens (fst ?R) tokenID = Some t' \<and>
                  TotalValue t' = Fin (v - a) \<and>
                  flt (TotalValue t) (TotalValue t') \<and> flt (BGTAmount t) (BGTAmount t') \<and>
                  flt (BSTAmount t) (BSTAmount t') \<and> flt (BPTAmount t) (BPTAmount t')) \<and>
            holdings_amounts (GetBasketHoldings e (fst ?R))
              = (Fin (hs - a), Fin (hg - g * (a / v)), Fin (hv - s * (a / v)),
                 Fin (hp - p * (a / v))) \<and>
            hs < hs - a \<and> hg < hg - g * (a / v) \<and> hv < hv - s * (a / v) \<and>
            hp < hp - p * (a / v)"
    if "a < 0"
    using tok hold that assms(3-10) neg[of g] neg[of s] neg[of p] by simp
  from ok high zero less \<open>0 < v\<close> show ?thesis by auto
qed

theorem RedeemMBT_nonpositive_amount_witness:
  "tokens minted_1000 (mintTokenID nov3) = Some alice_token \<and>
   RedeemMBT dec8 minted_1000 (mintTokenID nov3) (Fin 1001) ''alice''
     = (minted_1000, Some InsufficientTokenBalance) \<and>
   snd (RedeemMBT dec8 minted_1000 (mintTokenID nov3) (Fin 0) ''alice'') = None \<and>
   holdings_amounts (GetBasketHoldings dec8
      (fst (RedeemMBT dec8 minted_1000 (mintTokenID nov3) (Fin 0) ''alice'')))
     = (Fin 1000, Fin 500, Fin 300, Fin 200) \<and>
   snd (RedeemMBT dec8 minted_1000 (mintTokenID nov3) (Fin (- 100)) ''alice'') = None \<and>
   holdings_amounts (GetBasketHoldings dec8
      (fst (RedeemMBT dec8 minted_1000 (mintTokenID nov3) (Fin (- 100)) ''alice'')))
     = (Fin 1100, Fin 550, Fin 330, Fin 220)"
proof -
  have t: "Owner alice_token = ''alice''" "TotalValue alice_token = Fin 1000"
      "BGTAmount alice_token = Fin 500" "BSTAmount alice_token = Fin 300"
      "BPTAmount alice_token = Fin 200" "marshal_token_ok alice_token"
    by (simp_all add: alice_token_def marshal_token_ok_def)
  note R = RedeemMBT_nonpositive_amount [OF minted_1000_token t(1) t(2) _ t(3) t(4) t(5) _ _ _
      t(6) minted_1000_amounts [of dec8]]
  show ?thesis
    using R [of 1001] R [of 0] R [of "- 100"] minted_1000_token minted_1000_amounts [of dec8]
    by simp
qed


end
